theory Spec2Isabelle
  imports Complex_Main "HOL-Library.Word" "HOL-Library.Monad_Syntax"
begin

section \<open>Note names and MIDI numbers (utils)\<close>

text \<open>
  JavaScript numbers are modelled as \<open>int\<close> where the source computes on integers and as
  \<open>real\<close> where it computes on fractions. The one non-numeric value that the conversion
  functions can produce, \<open>NaN\<close>, is a constructor of its own.
\<close>

datatype 'a number = NaN | Val 'a

definition NOTE_NAMES :: "string list" where
  "NOTE_NAMES = [''C'', ''C#'', ''D'', ''D#'', ''E'', ''F'', ''F#'', ''G'', ''G#'', ''A'', ''A#'', ''B'']"

text \<open>Decimal rendering of an integer, as a template literal renders a number.\<close>

definition digitChar :: "nat \<Rightarrow> char" where
  "digitChar d = ''0123456789'' ! d"

fun showNat :: "nat \<Rightarrow> string" where
  "showNat n = (if n < 10 then [digitChar n] else showNat (n div 10) @ [digitChar (n mod 10)])"

declare showNat.simps [simp del]

definition showInt :: "int \<Rightarrow> string" where
  "showInt i = (if i < 0 then CHR ''-'' # showNat (nat (- i)) else showNat (nat i))"

text \<open>
  \<open>midiToNoteName\<close>: the guard, then \<open>Math.floor(midi / 12) - 1\<close> and \<open>midi % 12\<close>,
  which on the non-negative integers that pass the guard are \<open>div\<close> and \<open>mod\<close>.
\<close>

definition midiToNoteName :: "int \<Rightarrow> string" where
  "midiToNoteName midi =
     (if midi < 0 \<or> midi > 127 then ''---''
      else let octave = midi div 12 - 1;
               noteIndex = midi mod 12
           in NOTE_NAMES ! nat noteIndex @ showInt octave)"

text \<open>
  \<open>parseInt(s, 10)\<close> on ASCII text: leading white space is skipped, one sign is accepted,
  the longest run of decimal digits is read, and no digit at all gives \<open>NaN\<close>.
\<close>

definition isDigit :: "char \<Rightarrow> bool" where
  "isDigit c = (48 \<le> (of_char c :: nat) \<and> (of_char c :: nat) \<le> 57)"

definition isSpace :: "char \<Rightarrow> bool" where
  "isSpace c = ((of_char c :: nat) = 32 \<or> (9 \<le> (of_char c :: nat) \<and> (of_char c :: nat) \<le> 13))"

definition digitsValue :: "string \<Rightarrow> int" where
  "digitsValue ds = foldl (\<lambda>acc c. acc * 10 + (int (of_char c) - 48)) 0 ds"

definition parseDigits :: "string \<Rightarrow> int number" where
  "parseDigits s =
     (let ds = takeWhile isDigit s in if ds = [] then NaN else Val (digitsValue ds))"

definition parseInt10 :: "string \<Rightarrow> int number" where
  "parseInt10 s =
     (case dropWhile isSpace s of
        [] \<Rightarrow> NaN
      | c # cs \<Rightarrow>
          if c = CHR ''-'' then (case parseDigits cs of NaN \<Rightarrow> NaN | Val v \<Rightarrow> Val (- v))
          else if c = CHR ''+'' then parseDigits cs
          else parseDigits (c # cs))"

definition toUpperChar :: "char \<Rightarrow> char" where
  "toUpperChar c =
     (let n = (of_char c :: nat) in if 97 \<le> n \<and> n \<le> 122 then char_of (n - 32) else c)"

definition toUpperCase :: "string \<Rightarrow> string" where
  "toUpperCase s = map toUpperChar s"

text \<open>\<open>Array.prototype.indexOf\<close>: the first position of the element, or \<open>-1\<close>.\<close>

fun indexOfFrom :: "int \<Rightarrow> string list \<Rightarrow> string \<Rightarrow> int" where
  "indexOfFrom i [] x = - 1"
| "indexOfFrom i (y # ys) x = (if y = x then i else indexOfFrom (i + 1) ys x)"

definition indexOf :: "string list \<Rightarrow> string \<Rightarrow> int" where
  "indexOf xs x = indexOfFrom 0 xs x"

text \<open>
  \<open>noteNameToMidi\<close>. \<open>name.slice(-1)\<close> is the last character, \<open>name.slice(0, -1)\<close> all but
  the last. None of the calls in the \<open>try\<close> block throws, so the \<open>catch\<close> branch is never
  taken; arithmetic on \<open>NaN\<close> gives \<open>NaN\<close>.
\<close>

definition noteNameToMidi :: "string \<Rightarrow> int number" where
  "noteNameToMidi name =
     (if name = [] \<or> length name < 2 then Val 60
      else let octave = parseInt10 [last name];
               noteStr = toUpperCase (butlast name);
               noteIndex = indexOf NOTE_NAMES noteStr
           in if noteIndex = - 1 then Val 60
              else (case octave of NaN \<Rightarrow> NaN | Val oct \<Rightarrow> Val ((oct + 1) * 12 + noteIndex)))"

text \<open>\<open>noteToFreq\<close>: \<open>440 * Math.pow(2, (midiNote - 69) / 12)\<close>.\<close>

definition noteToFreq :: "string \<Rightarrow> real number" where
  "noteToFreq note =
     (case noteNameToMidi note of
        NaN \<Rightarrow> NaN
      | Val midiNote \<Rightarrow> Val (440 * 2 powr ((real_of_int midiNote - 69) / 12)))"


section \<open>WAV export (wavUtils)\<close>

text \<open>
  The \<open>DataView\<close> over the freshly allocated \<open>ArrayBuffer\<close> is a list of bytes, all zero
  at first. Every \<open>set\<close> method checks that the bytes it writes lie inside the buffer and
  throws a \<open>RangeError\<close> otherwise: that is the result \<open>None\<close>. Values are reduced
  modulo the width of the field, as \<open>DataView\<close> does, and multi-byte values are written
  little-endian (the source passes \<open>true\<close> everywhere).
\<close>

type_synonym byte = "8 word"

definition setBytes :: "byte list \<Rightarrow> nat \<Rightarrow> byte list \<Rightarrow> byte list option" where
  "setBytes view offset bs =
     (if offset + length bs \<le> length view
      then Some (take offset view @ bs @ drop (offset + length bs) view)
      else None)"

definition le16 :: "16 word \<Rightarrow> byte list" where
  "le16 w = [ucast w, ucast (drop_bit 8 w)]"

definition le32 :: "32 word \<Rightarrow> byte list" where
  "le32 w = [ucast w, ucast (drop_bit 8 w), ucast (drop_bit 16 w), ucast (drop_bit 24 w)]"

definition DataView_setUint8 :: "byte list \<Rightarrow> nat \<Rightarrow> nat \<Rightarrow> byte list option" where
  "DataView_setUint8 view offset val = setBytes view offset [word_of_nat val]"

definition DataView_setUint16 :: "byte list \<Rightarrow> nat \<Rightarrow> nat \<Rightarrow> byte list option" where
  "DataView_setUint16 view offset val = setBytes view offset (le16 (word_of_nat val))"

definition DataView_setUint32 :: "byte list \<Rightarrow> nat \<Rightarrow> nat \<Rightarrow> byte list option" where
  "DataView_setUint32 view offset val = setBytes view offset (le32 (word_of_nat val))"

text \<open>
  A sample of a \<open>Float32Array\<close> is its IEEE 754 binary32 bit pattern, a 32-bit word;
  \<open>setFloat32\<close> stores these four bytes.
\<close>

type_synonym float32 = "32 word"

definition DataView_setFloat32 :: "byte list \<Rightarrow> nat \<Rightarrow> float32 \<Rightarrow> byte list option" where
  "DataView_setFloat32 view offset val = setBytes view offset (le32 val)"

definition setUint16 :: "byte list \<Rightarrow> nat \<Rightarrow> nat \<Rightarrow> byte list option" where
  "setUint16 dataView offset val = DataView_setUint16 dataView offset val"

definition setUint32 :: "byte list \<Rightarrow> nat \<Rightarrow> nat \<Rightarrow> byte list option" where
  "setUint32 dataView offset val = DataView_setUint32 dataView offset val"

text \<open>\<open>writeString\<close>: the loop over the characters, the index carried in the offset.\<close>

fun writeString :: "byte list \<Rightarrow> nat \<Rightarrow> string \<Rightarrow> byte list option" where
  "writeString dataView offset [] = Some dataView"
| "writeString dataView offset (c # cs) =
     do {
       v \<leftarrow> DataView_setUint8 dataView offset (of_char c);
       writeString v (offset + 1) cs
     }"

text \<open>
  The host's \<open>AudioBuffer\<close>: its three read-only numbers (\<open>length\<close> is \<open>buf_length\<close>
  here) and \<open>getChannelData\<close>, which gives the samples of a channel by frame index. The
  sample rate is a whole number of Hz.
\<close>

record AudioBuffer =
  numberOfChannels :: nat
  sampleRate :: nat
  buf_length :: nat
  getChannelData :: "nat \<Rightarrow> nat \<Rightarrow> float32"

text \<open>
  The two nested loops that write the samples. The state is the view and the running
  \<open>offset\<close>; \<open>channels\<close> is the array filled by the first loop of the source.
\<close>

fun writeFrame ::
  "(nat \<Rightarrow> float32) list \<Rightarrow> nat \<Rightarrow> nat list \<Rightarrow> byte list \<times> nat \<Rightarrow> (byte list \<times> nat) option" where
  "writeFrame channels i [] st = Some st"
| "writeFrame channels i (j # js) st =
     do {
       v \<leftarrow> DataView_setFloat32 (fst st) (snd st) ((channels ! j) i);
       writeFrame channels i js (v, snd st + 4)
     }"

fun writeFrames ::
  "(nat \<Rightarrow> float32) list \<Rightarrow> nat \<Rightarrow> nat list \<Rightarrow> byte list \<times> nat \<Rightarrow> (byte list \<times> nat) option" where
  "writeFrames channels numChannels [] st = Some st"
| "writeFrames channels numChannels (i # is) st =
     do {
       st' \<leftarrow> writeFrame channels i [0..<numChannels] st;
       writeFrames channels numChannels is st'
     }"

definition audioBufferToWav :: "AudioBuffer \<Rightarrow> byte list option" where
  "audioBufferToWav buffer =
     (let numChannels = numberOfChannels buffer;
          sampleRate = sampleRate buffer;
          numSamples = buf_length buffer;
          bitsPerSample = 32;
          audioFormat = 3;
          dataSize = numChannels * numSamples * (bitsPerSample div 8);
          blockAlign = numChannels * (bitsPerSample div 8);
          byteRate = sampleRate * blockAlign;
          headerSize = 44;
          bufferSize = headerSize + dataSize;
          view = replicate bufferSize 0
      in do {
        view \<leftarrow> writeString view 0 ''RIFF'';
        view \<leftarrow> setUint32 view 4 (36 + dataSize);
        view \<leftarrow> writeString view 8 ''WAVE'';
        view \<leftarrow> writeString view 12 ''fmt '';
        view \<leftarrow> setUint32 view 16 16;
        view \<leftarrow> setUint16 view 20 audioFormat;
        view \<leftarrow> setUint16 view 22 numChannels;
        view \<leftarrow> setUint32 view 24 sampleRate;
        view \<leftarrow> setUint32 view 28 byteRate;
        view \<leftarrow> setUint16 view 32 blockAlign;
        view \<leftarrow> setUint16 view 34 bitsPerSample;
        view \<leftarrow> writeString view 36 ''data'';
        view \<leftarrow> setUint32 view 40 dataSize;
        let channels = map (getChannelData buffer) [0..<numChannels];
        st \<leftarrow> writeFrames channels numChannels [0..<numSamples] (view, 44);
        Some (fst st)
      })"

text \<open>
  The layout the format description gives, field by field: the 44-byte header of a
  RIFF/WAVE file with IEEE-float samples, and the samples interleaved by frame.
\<close>

definition asciiBytes :: "string \<Rightarrow> byte list" where
  "asciiBytes str = map (\<lambda>c. word_of_nat (of_char c)) str"

definition u16le :: "nat \<Rightarrow> byte list" where
  "u16le n = le16 (word_of_nat n)"

definition u32le :: "nat \<Rightarrow> byte list" where
  "u32le n = le32 (word_of_nat n)"

definition wavHeader :: "nat \<Rightarrow> nat \<Rightarrow> nat \<Rightarrow> byte list" where
  "wavHeader C R F =
     asciiBytes ''RIFF'' @ u32le (36 + C * F * 4) @ asciiBytes ''WAVE'' @
     asciiBytes ''fmt '' @ u32le 16 @ u16le 3 @ u16le C @ u32le R @
     u32le (R * (C * 4)) @ u16le (C * 4) @ u16le 32 @
     asciiBytes ''data'' @ u32le (C * F * 4)"

definition interleavedSamples :: "AudioBuffer \<Rightarrow> byte list" where
  "interleavedSamples buffer =
     concat (map (\<lambda>i. concat (map (\<lambda>j. le32 (getChannelData buffer j i))
                                    [0..<numberOfChannels buffer]))
                 [0..<buf_length buffer])"

text \<open>Reading a little-endian field back as a number.\<close>

definition leValue :: "byte list \<Rightarrow> nat" where
  "leValue bs = foldr (\<lambda>b acc. unat b + 256 * acc) bs 0"

section \<open>Tracks, steps and parameter locks (types)\<close>

text \<open>
  The interfaces of the type declarations, one record each. Numbers are \<open>real\<close>. Fields
  that several interfaces share (\<open>decay\<close>, \<open>filter\<close>, \<open>lfo1\<close>, ...) are told apart by the
  record name: \<open>KickParams.decay\<close>, \<open>HatParams.decay\<close>. Two field names are reserved
  words of the theory language and carry a prime: \<open>structure'\<close> of the Modal parameters and
  \<open>note'\<close> of a step.
\<close>

record Envelope =
  attack :: real
  decay :: real
  sustain :: real
  release :: real

datatype Waveform = Sine | Square | Sawtooth | Triangle

datatype FilterType = Lowpass | Highpass | Bandpass

text \<open>
  \<open>FilterParams\<close>. The field \<open>type\<close> is \<open>filter_type\<close> here. \<open>envAmount\<close> is not part of
  the interface: it is the property of older lock objects that \<open>createPolyVoice\<close> reads
  through a cast to \<open>any\<close>; \<open>None\<close> stands for an object without that property.
\<close>

record FilterParams =
  filter_type :: FilterType
  cutoff :: real
  resonance :: real
  envAmount :: "real option"

datatype LFODestination =
    dest_none | dest_pitch | dest_volume
  | dest_filterCutoff | dest_filterResonance
  | dest_kickSaturation | dest_kickTransient | dest_kickPitchEnv
  | dest_kickBody | dest_kickTone
  | dest_kickRumbleAmt | dest_kickRumbleDecay | dest_kickRumbleTone
  | dest_hatTone | dest_hatMetal
  | dest_bassCutoff
  | dest_polyOscMix | dest_polyNoise
  | dest_modalStructure | dest_modalBrightness
  | dest_riftFold | dest_riftDrive | dest_riftFeedback
  | dest_grainPitch | dest_grainDensity | dest_grainSize
  | dest_screamFeedback | dest_screamDamping

record LFOParams =
  waveform :: Waveform
  rate :: real
  depth :: real
  destination :: LFODestination

record OscillatorParams =
  waveform :: Waveform
  octave :: real
  detune :: real

record KickParams =
  tune :: real
  decay :: real
  punch :: real
  saturation :: real
  body :: real
  tone :: real
  transientAmount :: real
  pitchEnvAmount :: real
  pitchEnvDecay :: real
  rumbleAmount :: real
  rumbleDecay :: real
  rumbleTone :: real
  filter :: FilterParams
  lfo1 :: LFOParams
  lfo2 :: LFOParams

record HatParams =
  tone :: real
  decay :: real
  metal :: real
  filter :: FilterParams
  lfo1 :: LFOParams
  lfo2 :: LFOParams

record PolyParams =
  osc1 :: OscillatorParams
  osc2 :: OscillatorParams
  oscMix :: real
  noiseLevel :: real
  filter :: FilterParams
  ampEnv :: Envelope
  filterEnv :: Envelope
  lfo1 :: LFOParams
  lfo2 :: LFOParams

record BassParams =
  waveform :: Waveform
  cutoff :: real
  resonance :: real
  decay :: real
  accent :: real
  filter :: FilterParams
  lfo1 :: LFOParams
  lfo2 :: LFOParams

record ModalParams =
  structure' :: real
  brightness :: real
  decay :: real
  damping :: real
  filter :: FilterParams
  lfo1 :: LFOParams
  lfo2 :: LFOParams

record RiftParams =
  pitch :: real
  fold :: real
  drive :: real
  feedback :: real
  decay :: real
  filter :: FilterParams
  lfo1 :: LFOParams
  lfo2 :: LFOParams

record GrainParams =
  pitch :: real
  decay :: real
  density :: real
  spread :: real
  grainSize :: real
  filter :: FilterParams
  lfo1 :: LFOParams
  lfo2 :: LFOParams

record ScreamParams =
  pitch :: real
  decay :: real
  feedback :: real
  damping :: real
  filter :: FilterParams
  lfo1 :: LFOParams
  lfo2 :: LFOParams

record FXSends =
  reverb :: real
  delay :: real
  drive :: real

datatype AllInstrumentParams =
    KickP KickParams | HatP HatParams | PolyP PolyParams | BassP BassParams
  | ModalP ModalParams | RiftP RiftParams | GrainP GrainParams | ScreamP ScreamParams

text \<open>
  \<open>Partial<T>\<close>: every property may be missing. A missing property is \<open>None\<close>; a present
  one carries a value of the property's full type, so a locked sub-record (filter,
  envelope, oscillator, LFO) is a complete sub-record.
\<close>

record PartialKickParams =
  tune :: "real option"
  decay :: "real option"
  punch :: "real option"
  saturation :: "real option"
  body :: "real option"
  tone :: "real option"
  transientAmount :: "real option"
  pitchEnvAmount :: "real option"
  pitchEnvDecay :: "real option"
  rumbleAmount :: "real option"
  rumbleDecay :: "real option"
  rumbleTone :: "real option"
  filter :: "FilterParams option"
  lfo1 :: "LFOParams option"
  lfo2 :: "LFOParams option"

record PartialHatParams =
  tone :: "real option"
  decay :: "real option"
  metal :: "real option"
  filter :: "FilterParams option"
  lfo1 :: "LFOParams option"
  lfo2 :: "LFOParams option"

record PartialPolyParams =
  osc1 :: "OscillatorParams option"
  osc2 :: "OscillatorParams option"
  oscMix :: "real option"
  noiseLevel :: "real option"
  filter :: "FilterParams option"
  ampEnv :: "Envelope option"
  filterEnv :: "Envelope option"
  lfo1 :: "LFOParams option"
  lfo2 :: "LFOParams option"

record PartialBassParams =
  waveform :: "Waveform option"
  cutoff :: "real option"
  resonance :: "real option"
  decay :: "real option"
  accent :: "real option"
  filter :: "FilterParams option"
  lfo1 :: "LFOParams option"
  lfo2 :: "LFOParams option"

record PartialModalParams =
  structure' :: "real option"
  brightness :: "real option"
  decay :: "real option"
  damping :: "real option"
  filter :: "FilterParams option"
  lfo1 :: "LFOParams option"
  lfo2 :: "LFOParams option"

record PartialRiftParams =
  pitch :: "real option"
  fold :: "real option"
  drive :: "real option"
  feedback :: "real option"
  decay :: "real option"
  filter :: "FilterParams option"
  lfo1 :: "LFOParams option"
  lfo2 :: "LFOParams option"

record PartialGrainParams =
  pitch :: "real option"
  decay :: "real option"
  density :: "real option"
  spread :: "real option"
  grainSize :: "real option"
  filter :: "FilterParams option"
  lfo1 :: "LFOParams option"
  lfo2 :: "LFOParams option"

record PartialScreamParams =
  pitch :: "real option"
  decay :: "real option"
  feedback :: "real option"
  damping :: "real option"
  filter :: "FilterParams option"
  lfo1 :: "LFOParams option"
  lfo2 :: "LFOParams option"

record PartialFXSends =
  reverb :: "real option"
  delay :: "real option"
  drive :: "real option"

record PLocks =
  kickParams :: "PartialKickParams option"
  hatParams :: "PartialHatParams option"
  polyParams :: "PartialPolyParams option"
  bassParams :: "PartialBassParams option"
  modalParams :: "PartialModalParams option"
  riftParams :: "PartialRiftParams option"
  grainParams :: "PartialGrainParams option"
  screamParams :: "PartialScreamParams option"
  volume :: "real option"
  fxSends :: "PartialFXSends option"

record StepState =
  active :: bool
  pLocks :: "PLocks option"
  note' :: "string option"
  velocity :: real

datatype TrackType = kick | hat | poly | bass | modal | rift | grain | scream

text \<open>\<open>Track\<close>; its fields \<open>id\<close> and \<open>type\<close> are \<open>track_id\<close> and \<open>track_type\<close> here.\<close>

record Track =
  track_id :: nat
  name :: string
  track_type :: TrackType
  params :: AllInstrumentParams
  fxSends :: FXSends
  volume :: real
  patternLength :: nat
  defaultNote :: string
  steps :: "StepState list"

record DelayParams =
  time :: real
  feedback :: real
  mix :: real
  timeSync :: bool
  timeDivision :: real

section \<open>Parameter-lock resolution (the head of every voice constructor)\<close>

text \<open>
  Object spread \<open>{ ...base, ...lock }\<close> on these types: a property that the lock has wins,
  a property that it lacks comes from the base. The spread is one level deep, so a
  value that is itself a record is taken whole.
\<close>

definition spreadProp :: "'a \<Rightarrow> 'a option \<Rightarrow> 'a" where
  "spreadProp base locked = (case locked of None \<Rightarrow> base | Some v \<Rightarrow> v)"

definition spreadKickParams :: "KickParams \<Rightarrow> PartialKickParams \<Rightarrow> KickParams" where
  "spreadKickParams base lock =
     \<lparr>KickParams.tune = spreadProp (KickParams.tune base) (PartialKickParams.tune lock),
      KickParams.decay = spreadProp (KickParams.decay base) (PartialKickParams.decay lock),
      KickParams.punch = spreadProp (KickParams.punch base) (PartialKickParams.punch lock),
      KickParams.saturation = spreadProp (KickParams.saturation base) (PartialKickParams.saturation lock),
      KickParams.body = spreadProp (KickParams.body base) (PartialKickParams.body lock),
      KickParams.tone = spreadProp (KickParams.tone base) (PartialKickParams.tone lock),
      KickParams.transientAmount = spreadProp (KickParams.transientAmount base) (PartialKickParams.transientAmount lock),
      KickParams.pitchEnvAmount = spreadProp (KickParams.pitchEnvAmount base) (PartialKickParams.pitchEnvAmount lock),
      KickParams.pitchEnvDecay = spreadProp (KickParams.pitchEnvDecay base) (PartialKickParams.pitchEnvDecay lock),
      KickParams.rumbleAmount = spreadProp (KickParams.rumbleAmount base) (PartialKickParams.rumbleAmount lock),
      KickParams.rumbleDecay = spreadProp (KickParams.rumbleDecay base) (PartialKickParams.rumbleDecay lock),
      KickParams.rumbleTone = spreadProp (KickParams.rumbleTone base) (PartialKickParams.rumbleTone lock),
      KickParams.filter = spreadProp (KickParams.filter base) (PartialKickParams.filter lock),
      KickParams.lfo1 = spreadProp (KickParams.lfo1 base) (PartialKickParams.lfo1 lock),
      KickParams.lfo2 = spreadProp (KickParams.lfo2 base) (PartialKickParams.lfo2 lock)\<rparr>"

definition spreadHatParams :: "HatParams \<Rightarrow> PartialHatParams \<Rightarrow> HatParams" where
  "spreadHatParams base lock =
     \<lparr>HatParams.tone = spreadProp (HatParams.tone base) (PartialHatParams.tone lock),
      HatParams.decay = spreadProp (HatParams.decay base) (PartialHatParams.decay lock),
      HatParams.metal = spreadProp (HatParams.metal base) (PartialHatParams.metal lock),
      HatParams.filter = spreadProp (HatParams.filter base) (PartialHatParams.filter lock),
      HatParams.lfo1 = spreadProp (HatParams.lfo1 base) (PartialHatParams.lfo1 lock),
      HatParams.lfo2 = spreadProp (HatParams.lfo2 base) (PartialHatParams.lfo2 lock)\<rparr>"

definition spreadPolyParams :: "PolyParams \<Rightarrow> PartialPolyParams \<Rightarrow> PolyParams" where
  "spreadPolyParams base lock =
     \<lparr>PolyParams.osc1 = spreadProp (PolyParams.osc1 base) (PartialPolyParams.osc1 lock),
      PolyParams.osc2 = spreadProp (PolyParams.osc2 base) (PartialPolyParams.osc2 lock),
      PolyParams.oscMix = spreadProp (PolyParams.oscMix base) (PartialPolyParams.oscMix lock),
      PolyParams.noiseLevel = spreadProp (PolyParams.noiseLevel base) (PartialPolyParams.noiseLevel lock),
      PolyParams.filter = spreadProp (PolyParams.filter base) (PartialPolyParams.filter lock),
      PolyParams.ampEnv = spreadProp (PolyParams.ampEnv base) (PartialPolyParams.ampEnv lock),
      PolyParams.filterEnv = spreadProp (PolyParams.filterEnv base) (PartialPolyParams.filterEnv lock),
      PolyParams.lfo1 = spreadProp (PolyParams.lfo1 base) (PartialPolyParams.lfo1 lock),
      PolyParams.lfo2 = spreadProp (PolyParams.lfo2 base) (PartialPolyParams.lfo2 lock)\<rparr>"

definition spreadBassParams :: "BassParams \<Rightarrow> PartialBassParams \<Rightarrow> BassParams" where
  "spreadBassParams base lock =
     \<lparr>BassParams.waveform = spreadProp (BassParams.waveform base) (PartialBassParams.waveform lock),
      BassParams.cutoff = spreadProp (BassParams.cutoff base) (PartialBassParams.cutoff lock),
      BassParams.resonance = spreadProp (BassParams.resonance base) (PartialBassParams.resonance lock),
      BassParams.decay = spreadProp (BassParams.decay base) (PartialBassParams.decay lock),
      BassParams.accent = spreadProp (BassParams.accent base) (PartialBassParams.accent lock),
      BassParams.filter = spreadProp (BassParams.filter base) (PartialBassParams.filter lock),
      BassParams.lfo1 = spreadProp (BassParams.lfo1 base) (PartialBassParams.lfo1 lock),
      BassParams.lfo2 = spreadProp (BassParams.lfo2 base) (PartialBassParams.lfo2 lock)\<rparr>"

definition spreadModalParams :: "ModalParams \<Rightarrow> PartialModalParams \<Rightarrow> ModalParams" where
  "spreadModalParams base lock =
     \<lparr>ModalParams.structure' = spreadProp (ModalParams.structure' base) (PartialModalParams.structure' lock),
      ModalParams.brightness = spreadProp (ModalParams.brightness base) (PartialModalParams.brightness lock),
      ModalParams.decay = spreadProp (ModalParams.decay base) (PartialModalParams.decay lock),
      ModalParams.damping = spreadProp (ModalParams.damping base) (PartialModalParams.damping lock),
      ModalParams.filter = spreadProp (ModalParams.filter base) (PartialModalParams.filter lock),
      ModalParams.lfo1 = spreadProp (ModalParams.lfo1 base) (PartialModalParams.lfo1 lock),
      ModalParams.lfo2 = spreadProp (ModalParams.lfo2 base) (PartialModalParams.lfo2 lock)\<rparr>"

definition spreadRiftParams :: "RiftParams \<Rightarrow> PartialRiftParams \<Rightarrow> RiftParams" where
  "spreadRiftParams base lock =
     \<lparr>RiftParams.pitch = spreadProp (RiftParams.pitch base) (PartialRiftParams.pitch lock),
      RiftParams.fold = spreadProp (RiftParams.fold base) (PartialRiftParams.fold lock),
      RiftParams.drive = spreadProp (RiftParams.drive base) (PartialRiftParams.drive lock),
      RiftParams.feedback = spreadProp (RiftParams.feedback base) (PartialRiftParams.feedback lock),
      RiftParams.decay = spreadProp (RiftParams.decay base) (PartialRiftParams.decay lock),
      RiftParams.filter = spreadProp (RiftParams.filter base) (PartialRiftParams.filter lock),
      RiftParams.lfo1 = spreadProp (RiftParams.lfo1 base) (PartialRiftParams.lfo1 lock),
      RiftParams.lfo2 = spreadProp (RiftParams.lfo2 base) (PartialRiftParams.lfo2 lock)\<rparr>"

definition spreadGrainParams :: "GrainParams \<Rightarrow> PartialGrainParams \<Rightarrow> GrainParams" where
  "spreadGrainParams base lock =
     \<lparr>GrainParams.pitch = spreadProp (GrainParams.pitch base) (PartialGrainParams.pitch lock),
      GrainParams.decay = spreadProp (GrainParams.decay base) (PartialGrainParams.decay lock),
      GrainParams.density = spreadProp (GrainParams.density base) (PartialGrainParams.density lock),
      GrainParams.spread = spreadProp (GrainParams.spread base) (PartialGrainParams.spread lock),
      GrainParams.grainSize = spreadProp (GrainParams.grainSize base) (PartialGrainParams.grainSize lock),
      GrainParams.filter = spreadProp (GrainParams.filter base) (PartialGrainParams.filter lock),
      GrainParams.lfo1 = spreadProp (GrainParams.lfo1 base) (PartialGrainParams.lfo1 lock),
      GrainParams.lfo2 = spreadProp (GrainParams.lfo2 base) (PartialGrainParams.lfo2 lock)\<rparr>"

definition spreadScreamParams :: "ScreamParams \<Rightarrow> PartialScreamParams \<Rightarrow> ScreamParams" where
  "spreadScreamParams base lock =
     \<lparr>ScreamParams.pitch = spreadProp (ScreamParams.pitch base) (PartialScreamParams.pitch lock),
      ScreamParams.decay = spreadProp (ScreamParams.decay base) (PartialScreamParams.decay lock),
      ScreamParams.feedback = spreadProp (ScreamParams.feedback base) (PartialScreamParams.feedback lock),
      ScreamParams.damping = spreadProp (ScreamParams.damping base) (PartialScreamParams.damping lock),
      ScreamParams.filter = spreadProp (ScreamParams.filter base) (PartialScreamParams.filter lock),
      ScreamParams.lfo1 = spreadProp (ScreamParams.lfo1 base) (PartialScreamParams.lfo1 lock),
      ScreamParams.lfo2 = spreadProp (ScreamParams.lfo2 base) (PartialScreamParams.lfo2 lock)\<rparr>"

definition spreadFXSends :: "FXSends \<Rightarrow> PartialFXSends \<Rightarrow> FXSends" where
  "spreadFXSends base lock =
     \<lparr>FXSends.reverb = spreadProp (FXSends.reverb base) (PartialFXSends.reverb lock),
      FXSends.delay = spreadProp (FXSends.delay base) (PartialFXSends.delay lock),
      FXSends.drive = spreadProp (FXSends.drive base) (PartialFXSends.drive lock)\<rparr>"

text \<open>
  The three lines that open each \<open>create...Voice\<close>, after the guard on the track type:
  \<^verbatim>\<open>const params = { ...track.params, ...(pLocks?.kickParams || {}) };\<close>
  \<^verbatim>\<open>const fxSends = { ...track.fxSends, ...(pLocks?.fxSends || {}) };\<close>
  \<^verbatim>\<open>const volume = pLocks?.volume ?? track.volume;\<close>
  The result is \<open>None\<close> when the guard returns, and also for a track whose \<open>params\<close> are
  not those of its \<open>type\<close>; every track of the application pairs the two.
\<close>

definition resolvedFXSends :: "Track \<Rightarrow> PLocks option \<Rightarrow> FXSends" where
  "resolvedFXSends track pl =
     (case Option.bind pl PLocks.fxSends of
        None \<Rightarrow> Track.fxSends track
      | Some lock \<Rightarrow> spreadFXSends (Track.fxSends track) lock)"

definition resolvedVolume :: "Track \<Rightarrow> PLocks option \<Rightarrow> real" where
  "resolvedVolume track pl =
     (case Option.bind pl PLocks.volume of None \<Rightarrow> Track.volume track | Some v \<Rightarrow> v)"

definition kickVoiceParams :: "Track \<Rightarrow> PLocks option \<Rightarrow> (KickParams \<times> FXSends \<times> real) option" where
  "kickVoiceParams track pl =
     (if track_type track \<noteq> kick then None
      else case Track.params track of
        KickP base \<Rightarrow>
          Some ((case Option.bind pl kickParams of None \<Rightarrow> base | Some lock \<Rightarrow> spreadKickParams base lock),
                resolvedFXSends track pl, resolvedVolume track pl)
      | _ \<Rightarrow> None)"

definition hatVoiceParams :: "Track \<Rightarrow> PLocks option \<Rightarrow> (HatParams \<times> FXSends \<times> real) option" where
  "hatVoiceParams track pl =
     (if track_type track \<noteq> hat then None
      else case Track.params track of
        HatP base \<Rightarrow>
          Some ((case Option.bind pl hatParams of None \<Rightarrow> base | Some lock \<Rightarrow> spreadHatParams base lock),
                resolvedFXSends track pl, resolvedVolume track pl)
      | _ \<Rightarrow> None)"

definition polyVoiceParams :: "Track \<Rightarrow> PLocks option \<Rightarrow> (PolyParams \<times> FXSends \<times> real) option" where
  "polyVoiceParams track pl =
     (if track_type track \<noteq> poly then None
      else case Track.params track of
        PolyP base \<Rightarrow>
          Some ((case Option.bind pl polyParams of None \<Rightarrow> base | Some lock \<Rightarrow> spreadPolyParams base lock),
                resolvedFXSends track pl, resolvedVolume track pl)
      | _ \<Rightarrow> None)"

definition bassVoiceParams :: "Track \<Rightarrow> PLocks option \<Rightarrow> (BassParams \<times> FXSends \<times> real) option" where
  "bassVoiceParams track pl =
     (if track_type track \<noteq> bass then None
      else case Track.params track of
        BassP base \<Rightarrow>
          Some ((case Option.bind pl bassParams of None \<Rightarrow> base | Some lock \<Rightarrow> spreadBassParams base lock),
                resolvedFXSends track pl, resolvedVolume track pl)
      | _ \<Rightarrow> None)"

definition modalVoiceParams :: "Track \<Rightarrow> PLocks option \<Rightarrow> (ModalParams \<times> FXSends \<times> real) option" where
  "modalVoiceParams track pl =
     (if track_type track \<noteq> modal then None
      else case Track.params track of
        ModalP base \<Rightarrow>
          Some ((case Option.bind pl modalParams of None \<Rightarrow> base | Some lock \<Rightarrow> spreadModalParams base lock),
                resolvedFXSends track pl, resolvedVolume track pl)
      | _ \<Rightarrow> None)"

definition riftVoiceParams :: "Track \<Rightarrow> PLocks option \<Rightarrow> (RiftParams \<times> FXSends \<times> real) option" where
  "riftVoiceParams track pl =
     (if track_type track \<noteq> rift then None
      else case Track.params track of
        RiftP base \<Rightarrow>
          Some ((case Option.bind pl riftParams of None \<Rightarrow> base | Some lock \<Rightarrow> spreadRiftParams base lock),
                resolvedFXSends track pl, resolvedVolume track pl)
      | _ \<Rightarrow> None)"

definition grainVoiceParams :: "Track \<Rightarrow> PLocks option \<Rightarrow> (GrainParams \<times> FXSends \<times> real) option" where
  "grainVoiceParams track pl =
     (if track_type track \<noteq> grain then None
      else case Track.params track of
        GrainP base \<Rightarrow>
          Some ((case Option.bind pl grainParams of None \<Rightarrow> base | Some lock \<Rightarrow> spreadGrainParams base lock),
                resolvedFXSends track pl, resolvedVolume track pl)
      | _ \<Rightarrow> None)"

definition screamVoiceParams :: "Track \<Rightarrow> PLocks option \<Rightarrow> (ScreamParams \<times> FXSends \<times> real) option" where
  "screamVoiceParams track pl =
     (if track_type track \<noteq> scream then None
      else case Track.params track of
        ScreamP base \<Rightarrow>
          Some ((case Option.bind pl screamParams of None \<Rightarrow> base | Some lock \<Rightarrow> spreadScreamParams base lock),
                resolvedFXSends track pl, resolvedVolume track pl)
      | _ \<Rightarrow> None)"

text \<open>
  \<open>trigger\<close> selects the constructor by the track type; what it resolves before any
  audio node is built is collected here under the union type of the parameters.
\<close>

definition triggerParams :: "Track \<Rightarrow> PLocks option \<Rightarrow> (AllInstrumentParams \<times> FXSends \<times> real) option" where
  "triggerParams track pl =
     (case track_type track of
        kick \<Rightarrow> map_option (\<lambda>(p, f, v). (KickP p, f, v)) (kickVoiceParams track pl)
      | hat \<Rightarrow> map_option (\<lambda>(p, f, v). (HatP p, f, v)) (hatVoiceParams track pl)
      | poly \<Rightarrow> map_option (\<lambda>(p, f, v). (PolyP p, f, v)) (polyVoiceParams track pl)
      | bass \<Rightarrow> map_option (\<lambda>(p, f, v). (BassP p, f, v)) (bassVoiceParams track pl)
      | modal \<Rightarrow> map_option (\<lambda>(p, f, v). (ModalP p, f, v)) (modalVoiceParams track pl)
      | rift \<Rightarrow> map_option (\<lambda>(p, f, v). (RiftP p, f, v)) (riftVoiceParams track pl)
      | grain \<Rightarrow> map_option (\<lambda>(p, f, v). (GrainP p, f, v)) (grainVoiceParams track pl)
      | scream \<Rightarrow> map_option (\<lambda>(p, f, v). (ScreamP p, f, v)) (screamVoiceParams track pl))"

text \<open>A track whose parameters are those of its type, as every track of the application is.\<close>

definition paramsMatchType :: "Track \<Rightarrow> bool" where
  "paramsMatchType track =
     (case Track.params track of
        KickP _ \<Rightarrow> track_type track = kick
      | HatP _ \<Rightarrow> track_type track = hat
      | PolyP _ \<Rightarrow> track_type track = poly
      | BassP _ \<Rightarrow> track_type track = bass
      | ModalP _ \<Rightarrow> track_type track = modal
      | RiftP _ \<Rightarrow> track_type track = rift
      | GrainP _ \<Rightarrow> track_type track = grain
      | ScreamP _ \<Rightarrow> track_type track = scream)"

text \<open>
  The rule of the format description for one leaf, in its words: if the lock defines the
  leaf it wins, else the base value is used.
\<close>

definition lockWins :: "'a option \<Rightarrow> 'a \<Rightarrow> 'a \<Rightarrow> bool" where
  "lockWins locked base resolved =
     (case locked of Some v \<Rightarrow> resolved = v | None \<Rightarrow> resolved = base)"

section \<open>Gains set by the effects bus and by the voices\<close>

text \<open>
  \<open>updateDelay\<close>: the three values it schedules on the delay line, the feedback gain and
  the wet gain. The feedback gain is the parameter itself.
\<close>

record DelaySettings =
  delay_delayTime :: real
  delayFeedback_gain :: real
  delayWet_gain :: real

definition updateDelay :: "DelayParams \<Rightarrow> real \<Rightarrow> DelaySettings" where
  "updateDelay p bpm =
     (let delayTime = (if timeSync p then (60 / bpm) * timeDivision p else DelayParams.time p)
      in \<lparr>delay_delayTime = delayTime,
          delayFeedback_gain = DelayParams.feedback p,
          delayWet_gain = DelayParams.mix p\<rparr>)"

text \<open>\<open>createRiftVoice\<close>: \<^verbatim>\<open>feedbackGain.gain.value = feedback / 100 * 0.95\<close>.\<close>

definition riftFeedbackGain :: "RiftParams \<Rightarrow> real" where
  "riftFeedbackGain p = RiftParams.feedback p / 100 * 0.95"

text \<open>\<open>createScreamVoice\<close>: \<^verbatim>\<open>feedbackGain.gain.value = Math.min(0.99, feedback / 100)\<close>.\<close>

definition screamFeedbackGain :: "ScreamParams \<Rightarrow> real" where
  "screamFeedbackGain p = min 0.99 (ScreamParams.feedback p / 100)"

text \<open>
  \<open>createKickVoice\<close>, the rumble chain: built only for a positive \<open>rumbleAmount\<close>; the send
  gain is \<open>rumbleAmount / 100\<close> and the ducking gain is set to the constant \<open>1.0\<close>.
\<close>

record KickRumble =
  rumblePreGain_gain :: real
  duckingAmount_gain :: real

definition kickRumble :: "KickParams \<Rightarrow> KickRumble option" where
  "kickRumble p =
     (if KickParams.rumbleAmount p > 0
      then Some \<lparr>rumblePreGain_gain = KickParams.rumbleAmount p / 100, duckingAmount_gain = 1.0\<rparr>
      else None)"

text \<open>
  The gains of the four paths as the voice constructors compute them from a track and the
  lock of a step.
\<close>

definition riftVoiceFeedbackGain :: "Track \<Rightarrow> PLocks option \<Rightarrow> real option" where
  "riftVoiceFeedbackGain track pl =
     map_option (\<lambda>(p, f, v). riftFeedbackGain p) (riftVoiceParams track pl)"

definition screamVoiceFeedbackGain :: "Track \<Rightarrow> PLocks option \<Rightarrow> real option" where
  "screamVoiceFeedbackGain track pl =
     map_option (\<lambda>(p, f, v). screamFeedbackGain p) (screamVoiceParams track pl)"

definition kickVoiceRumble :: "Track \<Rightarrow> PLocks option \<Rightarrow> KickRumble option" where
  "kickVoiceRumble track pl =
     Option.bind (kickVoiceParams track pl) (\<lambda>(p, f, v). kickRumble p)"

section \<open>The filter-envelope amount of the Poly voice\<close>

text \<open>
  \<^verbatim>\<open>(pLocks?.polyParams?.filter as any)?.envAmount ?? params.filterEnv.attack > 0 ? 3000 : 0\<close>
  In JavaScript \<open>>\<close> binds tighter than \<open>??\<close>, and \<open>??\<close> tighter than \<open>? :\<close>, so the
  expression is \<open>(envAmount ?? (attack > 0)) ? 3000 : 0\<close>: the locked amount, when
  there is one, is only tested for truth (a number is true unless it is 0).
\<close>

definition legacyEnvAmount :: "PLocks option \<Rightarrow> real option" where
  "legacyEnvAmount pl =
     Option.bind (Option.bind (Option.bind pl polyParams) PartialPolyParams.filter) envAmount"

definition filterEnvAmount :: "PLocks option \<Rightarrow> PolyParams \<Rightarrow> real" where
  "filterEnvAmount pl p =
     (let cond = (case legacyEnvAmount pl of
                    Some v \<Rightarrow> v \<noteq> 0
                  | None \<Rightarrow> Envelope.attack (PolyParams.filterEnv p) > 0)
      in if cond then 3000 else 0)"

text \<open>\<^verbatim>\<open>if (filterEnvAmount !== 0)\<close>: the envelope on the filter frequency is built or not.\<close>

definition hasFilterEnvelope :: "PLocks option \<Rightarrow> PolyParams \<Rightarrow> bool" where
  "hasFilterEnvelope pl p = (filterEnvAmount pl p \<noteq> 0)"

definition polyVoiceFilterEnvAmount :: "Track \<Rightarrow> PLocks option \<Rightarrow> real option" where
  "polyVoiceFilterEnvAmount track pl =
     map_option (\<lambda>(p, f, v). filterEnvAmount pl p) (polyVoiceParams track pl)"

text \<open>
  The reading of the same expression with the fallback in parentheses,
  \<open>envAmount ?? (attack > 0 ? 3000 : 0)\<close>, for comparison.
\<close>

definition filterEnvAmount_as_described :: "PLocks option \<Rightarrow> PolyParams \<Rightarrow> real" where
  "filterEnvAmount_as_described pl p =
     (case legacyEnvAmount pl of
        Some v \<Rightarrow> v
      | None \<Rightarrow> if Envelope.attack (PolyParams.filterEnv p) > 0 then 3000 else 0)"

section \<open>The scheduler and the offline export\<close>

text \<open>
  The remainder operator \<open>%\<close> on integers: the sign of the dividend, \<open>NaN\<close> for a zero
  divisor. Reading an array at an index that is no position of the array gives
  \<open>undefined\<close>, here \<open>None\<close>.
\<close>

definition jsRem :: "int \<Rightarrow> int \<Rightarrow> int number" where
  "jsRem a b = (if b = 0 then NaN else Val (sgn a * (\<bar>a\<bar> mod \<bar>b\<bar>)))"

definition arrayGet :: "'a list \<Rightarrow> int number \<Rightarrow> 'a option" where
  "arrayGet xs idx =
     (case idx of
        NaN \<Rightarrow> None
      | Val i \<Rightarrow> if 0 \<le> i \<and> i < int (length xs) then Some (xs ! nat i) else None)"

text \<open>The arguments of one call of \<open>trigger\<close>.\<close>

record TriggerCall =
  tc_track :: Track
  tc_pLocks :: "PLocks option"
  tc_time :: real
  tc_note :: string
  tc_velocity :: real

definition isAudible :: "nat option \<Rightarrow> nat set \<Rightarrow> Track \<Rightarrow> bool" where
  "isAudible soloedTrackId mutedTracks track =
     (case soloedTrackId of
        None \<Rightarrow> track_id track \<notin> mutedTracks
      | Some s \<Rightarrow> track_id track = s)"

text \<open>
  One pass of the \<open>while\<close> loop of \<open>scheduleNotes\<close>, for a tempo \<open>bpm > 0\<close>:
  the step time, the step cursor, the calls of \<open>trigger\<close> in track order, the published
  cursor and the advanced \<open>nextNoteTime\<close>.
\<close>

definition stepTime :: "real \<Rightarrow> real" where
  "stepTime bpm = 60 / bpm / 4"

definition localCurrentStep :: "real \<Rightarrow> real \<Rightarrow> int number" where
  "localCurrentStep bpm nextNoteTime = jsRem \<lfloor>nextNoteTime / stepTime bpm\<rfloor> 16"

definition localStepIndex :: "int number \<Rightarrow> Track \<Rightarrow> int number" where
  "localStepIndex cur track =
     (case cur of NaN \<Rightarrow> NaN | Val s \<Rightarrow> jsRem s (int (patternLength track)))"

definition scheduleTrack ::
  "nat option \<Rightarrow> nat set \<Rightarrow> real \<Rightarrow> int number \<Rightarrow> Track \<Rightarrow> TriggerCall option" where
  "scheduleTrack soloedTrackId mutedTracks nextNoteTime cur track =
     (if \<not> isAudible soloedTrackId mutedTracks track then None
      else case arrayGet (steps track) (localStepIndex cur track) of
        None \<Rightarrow> None
      | Some step \<Rightarrow>
          if active step
          then Some \<lparr>tc_track = track,
                     tc_pLocks = pLocks step,
                     tc_time = nextNoteTime,
                     tc_note = (case note' step of
                                  None \<Rightarrow> defaultNote track
                                | Some n \<Rightarrow> if n = [] then defaultNote track else n),
                     tc_velocity = velocity step\<rparr>
          else None)"

definition scheduleStep ::
  "Track list \<Rightarrow> real \<Rightarrow> nat set \<Rightarrow> nat option \<Rightarrow> real \<Rightarrow> TriggerCall list \<times> int number \<times> real" where
  "scheduleStep tracks bpm mutedTracks soloedTrackId nextNoteTime =
     (let cur = localCurrentStep bpm nextNoteTime
      in (List.map_filter (scheduleTrack soloedTrackId mutedTracks nextNoteTime cur) tracks,
          cur,
          nextNoteTime + stepTime bpm))"

text \<open>
  \<open>scheduleNotes\<close>: the loop runs while \<open>nextNoteTime\<close> lies before the horizon
  \<open>currentTime + scheduleAheadTime\<close>. The state is the list of calls made so far, the
  published cursor (\<open>None\<close> before the first pass) and \<open>nextNoteTime\<close>; a loop that does
  not end has no result.
\<close>

partial_function (option) scheduleLoop ::
  "Track list \<Rightarrow> real \<Rightarrow> nat set \<Rightarrow> nat option \<Rightarrow> real \<Rightarrow>
   TriggerCall list \<times> int number option \<times> real \<Rightarrow>
   (TriggerCall list \<times> int number option \<times> real) option" where
  "scheduleLoop tracks bpm mutedTracks soloedTrackId horizon st =
     (if snd (snd st) < horizon
      then (case scheduleStep tracks bpm mutedTracks soloedTrackId (snd (snd st)) of
              (calls, cur, next) \<Rightarrow>
                scheduleLoop tracks bpm mutedTracks soloedTrackId horizon (fst st @ calls, Some cur, next))
      else Some st)"

definition scheduleAheadTime :: real where
  "scheduleAheadTime = 0.1"

definition scheduleNotes ::
  "Track list \<Rightarrow> real \<Rightarrow> nat set \<Rightarrow> nat option \<Rightarrow> real \<Rightarrow> real \<Rightarrow>
   (TriggerCall list \<times> int number option \<times> real) option" where
  "scheduleNotes tracks bpm mutedTracks soloedTrackId currentContextTime nextNoteTime =
     scheduleLoop tracks bpm mutedTracks soloedTrackId (currentContextTime + scheduleAheadTime)
       ([], None, nextNoteTime)"

text \<open>
  The loop of \<open>handleExportWav\<close>: for each \<open>i\<close> below \<open>numSteps\<close> (64 in the source),
  the time \<open>i * stepTime\<close> and the calls of \<open>trigger\<close> in track order.
\<close>

definition exportTrack ::
  "nat option \<Rightarrow> nat set \<Rightarrow> real \<Rightarrow> nat \<Rightarrow> Track \<Rightarrow> TriggerCall option" where
  "exportTrack soloedTrackId mutedTracks time' i track =
     (if \<not> isAudible soloedTrackId mutedTracks track then None
      else let stepIndex = jsRem (int i) (int (patternLength track))
           in case arrayGet (steps track) stepIndex of
        None \<Rightarrow> None
      | Some step \<Rightarrow>
          if active step
          then Some \<lparr>tc_track = track,
                     tc_pLocks = pLocks step,
                     tc_time = time',
                     tc_note = (case note' step of
                                  None \<Rightarrow> defaultNote track
                                | Some n \<Rightarrow> if n = [] then defaultNote track else n),
                     tc_velocity = velocity step\<rparr>
          else None)"

definition exportStep ::
  "Track list \<Rightarrow> real \<Rightarrow> nat set \<Rightarrow> nat option \<Rightarrow> nat \<Rightarrow> TriggerCall list" where
  "exportStep tracks bpm mutedTracks soloedTrackId i =
     (let stepTime = 60.0 / bpm / 4.0;
          time' = real i * stepTime
      in List.map_filter (exportTrack soloedTrackId mutedTracks time' i) tracks)"

definition exportCalls ::
  "Track list \<Rightarrow> real \<Rightarrow> nat set \<Rightarrow> nat option \<Rightarrow> nat \<Rightarrow> TriggerCall list" where
  "exportCalls tracks bpm mutedTracks soloedTrackId numSteps =
     concat (map (exportStep tracks bpm mutedTracks soloedTrackId) [0..<numSteps])"

section \<open>Placing a parameter lock (handleParamChange in lock mode)\<close>

text \<open>
  For the selected track and the step being edited, the handler builds
  \<^verbatim>\<open>{ ...pLocks, [trackParamsKey]: { ...(pLocks[trackParamsKey] || {}), [param]: value } }\<close>
  from the lock of the step (or \<open>{}\<close>), stores it in a copy of the step and returns a
  copy of the track with the new step list. The two computed keys select one leaf of one
  of the partial records; here the new lock is given as a function \<open>setLeaf\<close> of the old
  one. Reading \<open>currentStep.pLocks\<close> of a step that does not exist throws: \<open>None\<close>.
\<close>

definition emptyPLocks :: PLocks where
  "emptyPLocks =
     \<lparr>kickParams = None, hatParams = None, polyParams = None, bassParams = None,
      modalParams = None, riftParams = None, grainParams = None, screamParams = None,
      PLocks.volume = None, PLocks.fxSends = None\<rparr>"

definition lockStep :: "(PLocks \<Rightarrow> PLocks) \<Rightarrow> nat \<Rightarrow> Track \<Rightarrow> Track option" where
  "lockStep setLeaf stepIndex track =
     (if stepIndex < length (steps track)
      then let newSteps = steps track;
               currentStep = newSteps ! stepIndex;
               pl = (case pLocks currentStep of None \<Rightarrow> emptyPLocks | Some p \<Rightarrow> p);
               newPLocks = setLeaf pl
           in Some (track\<lparr>steps := newSteps[stepIndex := currentStep\<lparr>pLocks := Some newPLocks\<rparr>]\<rparr>)
      else None)"

text \<open>The lock of one leaf, \<open>decay\<close> of the Kick, as the handler builds it.\<close>

definition emptyPartialKickParams :: PartialKickParams where
  "emptyPartialKickParams =
     \<lparr>PartialKickParams.tune = None, PartialKickParams.decay = None, PartialKickParams.punch = None,
      PartialKickParams.saturation = None, PartialKickParams.body = None, PartialKickParams.tone = None,
      PartialKickParams.transientAmount = None, PartialKickParams.pitchEnvAmount = None,
      PartialKickParams.pitchEnvDecay = None, PartialKickParams.rumbleAmount = None,
      PartialKickParams.rumbleDecay = None, PartialKickParams.rumbleTone = None,
      PartialKickParams.filter = None, PartialKickParams.lfo1 = None, PartialKickParams.lfo2 = None\<rparr>"

definition setKickDecay :: "real \<Rightarrow> PLocks \<Rightarrow> PLocks" where
  "setKickDecay val pl =
     pl\<lparr>kickParams :=
          Some ((case kickParams pl of None \<Rightarrow> emptyPartialKickParams | Some k \<Rightarrow> k)
                  \<lparr>PartialKickParams.decay := Some val\<rparr>)\<rparr>"

section \<open>The initial tracks (constants)\<close>

definition STEPS :: nat where
  "STEPS = 16"

definition createEmptySteps :: "StepState list" where
  "createEmptySteps = replicate STEPS \<lparr>active = False, pLocks = None, note' = None, velocity = 1.0\<rparr>"

definition NEUTRAL_LFO :: LFOParams where
  "NEUTRAL_LFO = \<lparr>LFOParams.waveform = Triangle, rate = 1, depth = 0, destination = dest_none\<rparr>"

definition NEUTRAL_FILTER :: FilterType where
  "NEUTRAL_FILTER = Lowpass"

definition INITIAL_KICK_PARAMS :: KickParams where
  "INITIAL_KICK_PARAMS =
     \<lparr>KickParams.tune = 40, KickParams.decay = 0.45, KickParams.punch = 70,
      KickParams.saturation = 50, KickParams.body = 50, KickParams.tone = 8000,
      KickParams.transientAmount = 50, KickParams.pitchEnvAmount = 80,
      KickParams.pitchEnvDecay = 0.1, KickParams.rumbleAmount = 30,
      KickParams.rumbleDecay = 0.8, KickParams.rumbleTone = 400,
      KickParams.filter = \<lparr>filter_type = NEUTRAL_FILTER, cutoff = 20000, resonance = 1, envAmount = None\<rparr>,
      KickParams.lfo1 = NEUTRAL_LFO, KickParams.lfo2 = NEUTRAL_LFO\<rparr>"

definition INITIAL_POLY_PARAMS :: PolyParams where
  "INITIAL_POLY_PARAMS =
     \<lparr>PolyParams.osc1 = \<lparr>OscillatorParams.waveform = Sawtooth, octave = 0, detune = - 3\<rparr>,
      PolyParams.osc2 = \<lparr>OscillatorParams.waveform = Square, octave = 0, detune = 3\<rparr>,
      PolyParams.oscMix = 50, PolyParams.noiseLevel = 0.02,
      PolyParams.filter = \<lparr>filter_type = Lowpass, cutoff = 4000, resonance = 2, envAmount = None\<rparr>,
      PolyParams.ampEnv = \<lparr>attack = 0.01, Envelope.decay = 0.4, sustain = 0.1, release = 0.2\<rparr>,
      PolyParams.filterEnv = \<lparr>attack = 0.02, Envelope.decay = 0.4, sustain = 0, release = 0.4\<rparr>,
      PolyParams.lfo1 = NEUTRAL_LFO, PolyParams.lfo2 = NEUTRAL_LFO\<rparr>"

definition INITIAL_TRACK_KICK :: Track where
  "INITIAL_TRACK_KICK =
     \<lparr>track_id = 0, name = ''Kick'', track_type = kick, params = KickP INITIAL_KICK_PARAMS,
      Track.fxSends = \<lparr>FXSends.reverb = 0.1, FXSends.delay = 0, FXSends.drive = 0.2\<rparr>,
      Track.volume = 0.9, patternLength = 16, defaultNote = ''C2'', steps = createEmptySteps\<rparr>"

definition INITIAL_TRACK_POLY :: Track where
  "INITIAL_TRACK_POLY =
     \<lparr>track_id = 2, name = ''Poly'', track_type = poly, params = PolyP INITIAL_POLY_PARAMS,
      Track.fxSends = \<lparr>FXSends.reverb = 0.4, FXSends.delay = 0.5, FXSends.drive = 0\<rparr>,
      Track.volume = 0.65, patternLength = 16, defaultNote = ''C4'', steps = createEmptySteps\<rparr>"

section \<open>Example locks\<close>

text \<open>
  Two locks used to check the resolution on the initial tracks: a Kick lock that defines
  \<open>decay\<close> and the volume, and a Poly lock that defines the filter sub-record and, inside
  it, the older \<open>envAmount\<close> property.
\<close>

definition exampleKickLock :: PLocks where
  "exampleKickLock =
     emptyPLocks\<lparr>kickParams := Some (emptyPartialKickParams\<lparr>PartialKickParams.decay := Some 0.8\<rparr>),
                  PLocks.volume := Some 0.5\<rparr>"

definition emptyPartialPolyParams :: PartialPolyParams where
  "emptyPartialPolyParams =
     \<lparr>PartialPolyParams.osc1 = None, PartialPolyParams.osc2 = None,
      PartialPolyParams.oscMix = None, PartialPolyParams.noiseLevel = None,
      PartialPolyParams.filter = None, PartialPolyParams.ampEnv = None,
      PartialPolyParams.filterEnv = None, PartialPolyParams.lfo1 = None,
      PartialPolyParams.lfo2 = None\<rparr>"

definition examplePolyLock :: PLocks where
  "examplePolyLock =
     emptyPLocks\<lparr>polyParams :=
       Some (emptyPartialPolyParams\<lparr>PartialPolyParams.filter :=
         Some \<lparr>filter_type = Lowpass, cutoff = 500, resonance = 9, envAmount = Some 1500\<rparr>\<rparr>)\<rparr>"

section \<open>The step the export reads, and an example track\<close>

text \<open>The index the export loop reads at its counter \<open>i\<close>.\<close>

definition exportLocalStep :: "Track \<Rightarrow> nat \<Rightarrow> int number" where
  "exportLocalStep track i = jsRem (int i) (int (patternLength track))"

text \<open>A Poly track of pattern length 12 whose only active step is step 0.\<close>

definition examplePolyTrack12 :: Track where
  "examplePolyTrack12 =
     INITIAL_TRACK_POLY\<lparr>patternLength := 12,
       steps := createEmptySteps[0 := \<lparr>active = True, pLocks = None, note' = None, velocity = 1.0\<rparr>]\<rparr>"

section \<open>Verified properties\<close>

subsection \<open>Note names\<close>

lemma NOTE_NAMES_length: "length NOTE_NAMES = 12"
  by (simp add: NOTE_NAMES_def)

lemma NOTE_NAMES_nth_first:
  assumes "k < 12"
  shows "hd (NOTE_NAMES ! k) \<in> set ''CDEFGAB'' \<and> NOTE_NAMES ! k \<noteq> []"
proof -
  have "list_all (\<lambda>k. hd (NOTE_NAMES ! k) \<in> set ''CDEFGAB'' \<and> NOTE_NAMES ! k \<noteq> []) [0..<12]"
    by code_simp
  moreover from assms have "k \<in> set [0..<12]"
    by (simp only: set_upt atLeastLessThan_iff) simp
  ultimately show ?thesis
    unfolding list_all_iff by blast
qed

text \<open>
  From octave 0 upwards the two conversions are inverse to each other: the octave is one
  digit, which is what \<open>noteNameToMidi\<close> reads.
\<close>

lemma roundtrip_list: "list_all (\<lambda>m. noteNameToMidi (midiToNoteName m) = Val m) [12..127]"
  by code_simp

lemma roundtrip_from_octave_0:
  assumes "12 \<le> m" "m \<le> 127"
  shows "noteNameToMidi (midiToNoteName m) = Val m"
proof -
  from assms have "m \<in> set [12..127]"
    by (simp only: set_upto atLeastAtMost_iff)
  with roundtrip_list show ?thesis
    unfolding list_all_iff by blast
qed

text \<open>
  In octave \<open>-1\<close> the name ends in \<open>-1\<close>; the parser takes the last character as the octave
  and \<open>C-\<close> as the note, which is no note name, and answers 60.
\<close>

lemma roundtrip_octave_minus_1_list:
  "list_all (\<lambda>m. noteNameToMidi (midiToNoteName m) = Val 60) [0..11]"
  by code_simp

lemma roundtrip_octave_minus_1:
  assumes "0 \<le> m" "m \<le> 11"
  shows "noteNameToMidi (midiToNoteName m) = Val 60"
proof -
  from assms have "m \<in> set [0..11]"
    by (simp only: set_upto atLeastAtMost_iff)
  with roundtrip_octave_minus_1_list show ?thesis
    unfolding list_all_iff by blast
qed

text \<open>The 128 names are pairwise different, so \<open>midiToNoteName\<close> is one-to-one on 0..127.\<close>

lemma midiToNoteName_distinct: "distinct (map midiToNoteName [0..127])"
  by code_simp

text \<open>
  Names that are read as the default pitch 60: the empty name, a name of one character,
  and a name whose part before the last character is no note name.
\<close>

lemma noteNameToMidi_short:
  assumes "length noteName < 2"
  shows "noteNameToMidi noteName = Val 60"
  using assms by (simp add: noteNameToMidi_def)

lemma noteNameToMidi_unknown_note:
  assumes "indexOf NOTE_NAMES (toUpperCase (butlast noteName)) = - 1"
  shows "noteNameToMidi noteName = Val 60"
  using assms by (simp add: noteNameToMidi_def Let_def)

lemma noteToFreq_default:
  assumes "noteNameToMidi noteName = Val 60"
  shows "noteToFreq noteName = Val (440 * 2 powr (- 9 / 12))"
  using assms by (simp add: noteToFreq_def)

text \<open>
  C5. The round trip through \<open>midiToNoteName\<close> and \<open>noteNameToMidi\<close> does not return MIDI
  number 0: its name is \<open>C-1\<close>, and that name is read back as 60.
\<close>

theorem midi_roundtrip_fails_at_0:
  "midiToNoteName 0 = ''C-1'' \<and> noteNameToMidi (midiToNoteName 0) = Val 60"
  by code_simp

text \<open>
  C8. A name with a known note letter and a last character that is no digit is not mapped
  to the default pitch 60: \<open>parseInt\<close> gives \<open>NaN\<close>, the note is found, and the sum is
  \<open>NaN\<close>, for \<open>noteNameToMidi\<close> and for \<open>noteToFreq\<close> after it.
\<close>

theorem noteNameToMidi_malformed_NaN:
  "noteNameToMidi ''CX'' = NaN \<and> noteToFreq ''CX'' = NaN"
proof -
  have "noteNameToMidi ''CX'' = NaN"
    by code_simp
  then show ?thesis
    by (simp add: noteToFreq_def)
qed

text \<open>
  C10. \<open>midiToNoteName\<close> is defined on every integer: outside 0..127 the result is the
  sentinel \<open>---\<close>; inside, the index into \<open>NOTE_NAMES\<close> is in range, the octave lies in
  -1..9, and the result is a note name followed by the octave, which starts with a note
  letter and so is not the sentinel.
\<close>

theorem midiToNoteName_total:
  "(m < 0 \<or> 127 < m \<longrightarrow> midiToNoteName m = ''---'') \<and>
   (0 \<le> m \<and> m \<le> 127 \<longrightarrow>
      nat (m mod 12) < length NOTE_NAMES \<and>
      - 1 \<le> m div 12 - 1 \<and> m div 12 - 1 \<le> 9 \<and>
      midiToNoteName m = NOTE_NAMES ! nat (m mod 12) @ showInt (m div 12 - 1) \<and>
      hd (midiToNoteName m) \<in> set ''CDEFGAB'' \<and>
      midiToNoteName m \<noteq> ''---'')"
proof (intro conjI impI)
  assume "m < 0 \<or> 127 < m"
  then show "midiToNoteName m = ''---''"
    by (auto simp: midiToNoteName_def)
next
  assume r: "0 \<le> m \<and> m \<le> 127"
  show k: "nat (m mod 12) < length NOTE_NAMES"
    by (simp add: NOTE_NAMES_length nat_less_iff)
  from r show "- 1 \<le> m div 12 - 1" by presburger
  from r show "m div 12 - 1 \<le> 9" by presburger
  from r show e: "midiToNoteName m = NOTE_NAMES ! nat (m mod 12) @ showInt (m div 12 - 1)"
    by (simp add: midiToNoteName_def Let_def)
  from k have f: "hd (NOTE_NAMES ! nat (m mod 12)) \<in> set ''CDEFGAB'' \<and> NOTE_NAMES ! nat (m mod 12) \<noteq> []"
    by (intro NOTE_NAMES_nth_first) (simp add: NOTE_NAMES_length)
  with e show h: "hd (midiToNoteName m) \<in> set ''CDEFGAB''"
    by simp
  then show "midiToNoteName m \<noteq> ''---''"
    by auto
qed

theorem midiToNoteName_total_witness:
  "midiToNoteName (- 1) = ''---'' \<and> midiToNoteName 128 = ''---'' \<and>
   midiToNoteName 61 = ''C#4'' \<and> midiToNoteName 61 \<noteq> ''---''"
proof -
  have a: "midiToNoteName (- 1) = ''---''"
    using midiToNoteName_total [of "- 1"] by simp
  have b: "midiToNoteName 128 = ''---''"
    using midiToNoteName_total [of 128] by simp
  have r: "(0::int) \<le> 61 \<and> (61::int) \<le> 127"
    by simp
  note t = midiToNoteName_total [of 61, THEN conjunct2, rule_format, OF r]
  have c: "midiToNoteName 61 = NOTE_NAMES ! nat (61 mod 12) @ showInt (61 div 12 - 1)"
    using t by blast
  have c': "midiToNoteName 61 \<noteq> ''---''"
    using t by blast
  have d: "NOTE_NAMES ! nat (61 mod 12) @ showInt (61 div 12 - 1) = ''C#4''"
    by code_simp
  from a b c c' d show ?thesis by simp
qed

subsection \<open>WAV export\<close>

lemma length_le32 [simp]: "length (le32 w) = 4" by (simp add: le32_def)
lemma length_le16 [simp]: "length (le16 w) = 2" by (simp add: le16_def)
lemma length_u32le [simp]: "length (u32le n) = 4" by (simp add: u32le_def)
lemma length_u16le [simp]: "length (u16le n) = 2" by (simp add: u16le_def)
lemma length_asciiBytes [simp]: "length (asciiBytes s) = length s" by (simp add: asciiBytes_def)

lemma setBytes_frontier:
  assumes "length w = off" "length bs \<le> n"
  shows "setBytes (w @ replicate n 0) off bs = Some ((w @ bs) @ replicate (n - length bs) 0)"
  using assms by (simp add: setBytes_def)

lemma writeString_frontier:
  assumes "length w = off" "length str \<le> n"
  shows "writeString (w @ replicate n 0) off str = Some ((w @ asciiBytes str) @ replicate (n - length str) 0)"
  using assms
proof (induction str arbitrary: w off n)
  case Nil
  then show ?case by (simp add: asciiBytes_def)
next
  case (Cons c cs)
  have "DataView_setUint8 (w @ replicate n 0) off (of_char c) = Some ((w @ [word_of_nat (of_char c)]) @ replicate (n - 1) 0)"
    using Cons.prems setBytes_frontier [of w off "[word_of_nat (of_char c)]" n]
    by (simp add: DataView_setUint8_def)
  moreover have "writeString ((w @ [word_of_nat (of_char c)]) @ replicate (n - 1) 0) (off + 1) cs
      = Some (((w @ [word_of_nat (of_char c)]) @ asciiBytes cs) @ replicate (n - 1 - length cs) 0)"
    using Cons.prems by (intro Cons.IH) auto
  ultimately show ?case
    by (simp add: asciiBytes_def)
qed

lemma writeString_start:
  assumes "length str \<le> n"
  shows "writeString (replicate n 0) 0 str = Some (asciiBytes str @ replicate (n - length str) 0)"
  using writeString_frontier [of "[]" 0 str n] assms by simp

lemma setUint32_frontier:
  assumes "length w = off" "4 \<le> n"
  shows "setUint32 (w @ replicate n 0) off v = Some ((w @ u32le v) @ replicate (n - 4) 0)"
  using setBytes_frontier [of w off "le32 (word_of_nat v)" n] assms
  by (simp add: setUint32_def DataView_setUint32_def u32le_def)

lemma setUint16_frontier:
  assumes "length w = off" "2 \<le> n"
  shows "setUint16 (w @ replicate n 0) off v = Some ((w @ u16le v) @ replicate (n - 2) 0)"
  using setBytes_frontier [of w off "le16 (word_of_nat v)" n] assms
  by (simp add: setUint16_def DataView_setUint16_def u16le_def)

lemma writeFrame_frontier:
  assumes "length w = off" "4 * length js \<le> n"
  shows "writeFrame channels i js (w @ replicate n 0, off) =
           Some ((w @ concat (map (\<lambda>j. le32 ((channels ! j) i)) js)) @ replicate (n - 4 * length js) 0,
                 off + 4 * length js)"
  using assms
proof (induction js arbitrary: w off n)
  case Nil
  then show ?case by simp
next
  case (Cons j js)
  let ?b = "le32 ((channels ! j) i)"
  have "DataView_setFloat32 (w @ replicate n 0) off ((channels ! j) i) = Some ((w @ ?b) @ replicate (n - 4) 0)"
    using Cons.prems setBytes_frontier [of w off ?b n]
    by (simp add: DataView_setFloat32_def)
  moreover have "writeFrame channels i js ((w @ ?b) @ replicate (n - 4) 0, off + 4) =
      Some (((w @ ?b) @ concat (map (\<lambda>j. le32 ((channels ! j) i)) js)) @ replicate (n - 4 - 4 * length js) 0,
            off + 4 + 4 * length js)"
    using Cons.prems by (intro Cons.IH) auto
  ultimately show ?case
    by simp
qed

lemma writeFrames_frontier:
  assumes "length w = off" "4 * numChannels * length is \<le> n"
  shows "writeFrames channels numChannels is (w @ replicate n 0, off) =
           Some ((w @ concat (map (\<lambda>i. concat (map (\<lambda>j. le32 ((channels ! j) i)) [0..<numChannels])) is))
                   @ replicate (n - 4 * numChannels * length is) 0,
                 off + 4 * numChannels * length is)"
  using assms
proof (induction "is" arbitrary: w off n)
  case Nil
  then show ?case by simp
next
  case (Cons i "is")
  let ?f = "concat (map (\<lambda>j. le32 ((channels ! j) i)) [0..<numChannels])"
  have n: "4 * numChannels \<le> n"
    using Cons.prems by simp
  have "writeFrame channels i [0..<numChannels] (w @ replicate n 0, off) =
          Some ((w @ ?f) @ replicate (n - 4 * numChannels) 0, off + 4 * numChannels)"
    using writeFrame_frontier [of w off "[0..<numChannels]" n channels i] Cons.prems n
    by simp
  moreover have "writeFrames channels numChannels is ((w @ ?f) @ replicate (n - 4 * numChannels) 0, off + 4 * numChannels) =
      Some (((w @ ?f) @ concat (map (\<lambda>i. concat (map (\<lambda>j. le32 ((channels ! j) i)) [0..<numChannels])) is))
              @ replicate (n - 4 * numChannels - 4 * numChannels * length is) 0,
            off + 4 * numChannels + 4 * numChannels * length is)"
  proof (intro Cons.IH)
    show "length (w @ ?f) = off + 4 * numChannels"
      using Cons.prems by (simp add: length_concat comp_def sum_list_triv)
    show "4 * numChannels * length is \<le> n - 4 * numChannels"
      using Cons.prems by simp
  qed
  ultimately show ?case
    by simp
qed

lemma length_wavHeader: "length (wavHeader C R F) = 44"
  by (simp add: wavHeader_def)

lemma length_interleavedSamples:
  "length (interleavedSamples b) = numberOfChannels b * buf_length b * 4"
  by (simp add: interleavedSamples_def length_concat comp_def sum_list_triv)

lemma header_written:
  fixes K :: "byte list \<Rightarrow> byte list option"
  shows "do {
        view \<leftarrow> writeString (replicate (44 + D) 0) 0 ''RIFF'';
        view \<leftarrow> setUint32 view 4 (36 + D);
        view \<leftarrow> writeString view 8 ''WAVE'';
        view \<leftarrow> writeString view 12 ''fmt '';
        view \<leftarrow> setUint32 view 16 16;
        view \<leftarrow> setUint16 view 20 3;
        view \<leftarrow> setUint16 view 22 C;
        view \<leftarrow> setUint32 view 24 R;
        view \<leftarrow> setUint32 view 28 BR;
        view \<leftarrow> setUint16 view 32 BA;
        view \<leftarrow> setUint16 view 34 32;
        view \<leftarrow> writeString view 36 ''data'';
        view \<leftarrow> setUint32 view 40 D;
        K view
      } = K ((asciiBytes ''RIFF'' @ u32le (36 + D) @ asciiBytes ''WAVE'' @
     asciiBytes ''fmt '' @ u32le 16 @ u16le 3 @ u16le C @ u32le R @
     u32le BR @ u16le BA @ u16le 32 @
     asciiBytes ''data'' @ u32le D) @ replicate D 0)"
  apply (subst writeString_start, simp)
  apply (simp only: bind.bind_lunit)
  apply (subst setUint32_frontier, simp, simp)
  apply (simp only: bind.bind_lunit)
  apply (subst writeString_frontier, simp, simp)
  apply (simp only: bind.bind_lunit)
  apply (subst writeString_frontier, simp, simp)
  apply (simp only: bind.bind_lunit)
  apply (subst setUint32_frontier, simp, simp)
  apply (simp only: bind.bind_lunit)
  apply (subst setUint16_frontier, simp, simp)
  apply (simp only: bind.bind_lunit)
  apply (subst setUint16_frontier, simp, simp)
  apply (simp only: bind.bind_lunit)
  apply (subst setUint32_frontier, simp, simp)
  apply (simp only: bind.bind_lunit)
  apply (subst setUint32_frontier, simp, simp)
  apply (simp only: bind.bind_lunit)
  apply (subst setUint16_frontier, simp, simp)
  apply (simp only: bind.bind_lunit)
  apply (subst setUint16_frontier, simp, simp)
  apply (simp only: bind.bind_lunit)
  apply (subst writeString_frontier, simp, simp)
  apply (simp only: bind.bind_lunit)
  apply (subst setUint32_frontier, simp, simp)
  apply (simp only: bind.bind_lunit)
  apply simp
  done


text \<open>
  Reading a field back: the four (two) bytes of a field hold the number itself as long as
  it is below \<open>2 ^ 32\<close> (\<open>2 ^ 16\<close>), and its remainder otherwise.
\<close>

lemma unat_byte0: "unat (ucast (w :: 'a::len word) :: byte) = unat w mod 256"
  by (simp add: unsigned_ucast_eq take_bit_eq_mod)

lemma unat_drop_bit_div: "unat (drop_bit k (w :: 'a::len word)) = unat w div 2 ^ k"
  unfolding unat_drop_bit_eq by (rule drop_bit_eq_div)

lemma bytes2:
  fixes n :: nat
  assumes "n < 65536"
  shows "n mod 256 + 256 * (n div 256 mod 256) = n"
proof -
  from assms have "n div 256 < 256" by simp
  then show ?thesis by simp
qed

lemma bytes4:
  fixes n :: nat
  assumes "n < 4294967296"
  shows "n mod 256 + 256 * (n div 256 mod 256 + 256 * (n div 65536 mod 256 + 256 * (n div 16777216))) = n"
proof -
  define a where "a = n div 256"
  define b where "b = a div 256"
  define c where "c = b div 256"
  have b: "n div 65536 = b"
    unfolding b_def a_def by (simp add: div_mult2_eq [symmetric])
  have c: "n div 16777216 = c"
    unfolding c_def b_def a_def by (simp add: div_mult2_eq [symmetric])
  have "b mod 256 + 256 * c = b"
    unfolding c_def by simp
  then have "a mod 256 + 256 * (b mod 256 + 256 * c) = a"
    unfolding b_def by simp
  then have "n mod 256 + 256 * (a mod 256 + 256 * (b mod 256 + 256 * c)) = n"
    unfolding a_def by simp
  then show ?thesis
    unfolding b c a_def [symmetric] .
qed

lemma leValue_le16: "leValue (le16 w) = unat w"
proof -
  have "unat w < 2 ^ 16"
    using unsigned_less [of w, where 'a = nat] by simp
  then have "unat w < 65536" by simp
  from bytes2 [OF this] show ?thesis
    by (simp add: leValue_def le16_def unat_byte0 unat_drop_bit_div)
qed

lemma leValue_le32: "leValue (le32 w) = unat w"
proof -
  have "unat w < 2 ^ 32"
    using unsigned_less [of w, where 'a = nat] by simp
  then have r: "unat w < 4294967296" by simp
  then have m: "unat w div 16777216 mod 256 = unat w div 16777216" by simp
  from bytes4 [OF r] show ?thesis
    by (simp add: leValue_def le32_def unat_byte0 unat_drop_bit_div m)
qed

lemma leValue_u32le: "leValue (u32le n) = n mod 2 ^ 32"
  by (simp add: u32le_def leValue_le32 unat_of_nat)

lemma leValue_u16le: "leValue (u16le n) = n mod 2 ^ 16"
  by (simp add: u16le_def leValue_le16 unat_of_nat)

lemma leValue_u32le_exact: "n < 2 ^ 32 \<Longrightarrow> leValue (u32le n) = n"
  by (simp add: leValue_u32le)

lemma leValue_u16le_exact: "n < 2 ^ 16 \<Longrightarrow> leValue (u16le n) = n"
  by (simp add: leValue_u16le)

text \<open>
  C9. For every buffer with \<open>C\<close> channels, \<open>F\<close> frames and sample rate \<open>R\<close>,
  \<open>audioBufferToWav\<close> returns (no write leaves the buffer) exactly the 44 header bytes of
  the RIFF/WAVE layout, every field little-endian at its width: \<open>RIFF\<close>, \<open>36 + dataSize\<close>,
  \<open>WAVE\<close>, \<open>fmt \<close>, 16, format 3, \<open>C\<close>, \<open>R\<close>, byte rate \<open>R * (C * 4)\<close>, block align
  \<open>C * 4\<close>, 32 bits per sample, \<open>data\<close>, \<open>dataSize = C * F * 4\<close>, followed by the samples
  frame by frame, channel by channel; \<open>44 + C * F * 4\<close> bytes in all.
\<close>

theorem audioBufferToWav_layout:
  "audioBufferToWav b =
     Some (wavHeader (numberOfChannels b) (sampleRate b) (buf_length b) @ interleavedSamples b) \<and>
   length (wavHeader (numberOfChannels b) (sampleRate b) (buf_length b)) = 44 \<and>
   length (wavHeader (numberOfChannels b) (sampleRate b) (buf_length b) @ interleavedSamples b) =
     44 + numberOfChannels b * buf_length b * 4"
proof -
  let ?C = "numberOfChannels b" and ?R = "sampleRate b" and ?F = "buf_length b"
  let ?D = "?C * ?F * 4"
  let ?chs = "map (getChannelData b) [0..<?C]"
  let ?H = "wavHeader ?C ?R ?F"
  have frames: "writeFrames ?chs ?C [0..<?F] (?H @ replicate ?D 0, 44) =
      Some ((?H @ concat (map (\<lambda>i. concat (map (\<lambda>j. le32 ((?chs ! j) i)) [0..<?C])) [0..<?F]))
              @ replicate (?D - 4 * ?C * length [0..<?F]) 0,
            44 + 4 * ?C * length [0..<?F])"
    by (intro writeFrames_frontier) (simp_all add: length_wavHeader)
  have samples: "concat (map (\<lambda>i. concat (map (\<lambda>j. le32 ((?chs ! j) i)) [0..<?C])) [0..<?F])
      = interleavedSamples b"
    unfolding interleavedSamples_def
    by (intro arg_cong [where f = concat] map_cong refl) simp
  have "audioBufferToWav b = Some (?H @ interleavedSamples b)"
    unfolding audioBufferToWav_def Let_def
    apply (simp only: header_written)
    apply (simp add: wavHeader_def [symmetric])
    apply (simp only: frames samples)
    apply simp
    done
  then show ?thesis
    by (simp add: length_wavHeader length_interleavedSamples)
qed

theorem audioBufferToWav_layout_witness:
  "audioBufferToWav \<lparr>numberOfChannels = 2, sampleRate = 44100, buf_length = 1,
       getChannelData = (\<lambda>j i. if j = 0 then 0x3F800000 else 0xBF800000)\<rparr> =
   Some [82, 73, 70, 70, 44, 0, 0, 0, 87, 65, 86, 69, 102, 109, 116, 32, 16, 0, 0, 0, 3, 0, 2, 0,
         0x44, 0xAC, 0, 0, 0x20, 0x62, 0x05, 0, 8, 0, 32, 0, 100, 97, 116, 97, 8, 0, 0, 0,
         0, 0, 0x80, 0x3F, 0, 0, 0x80, 0xBF]"
proof -
  let ?b = "\<lparr>numberOfChannels = 2, sampleRate = 44100, buf_length = 1,
       getChannelData = (\<lambda>j i. if j = 0 then 0x3F800000 else (0xBF800000 :: float32))\<rparr>"
  have h: "wavHeader 2 44100 1 =
    [82, 73, 70, 70, 44, 0, 0, 0, 87, 65, 86, 69, 102, 109, 116, 32, 16, 0, 0, 0, 3, 0, 2, 0,
     0x44, 0xAC, 0, 0, 0x20, 0x62, 0x05, 0, 8, 0, 32, 0, 100, 97, 116, 97, 8, 0, 0, 0]"
    by (simp add: wavHeader_def asciiBytes_def u32le_def u16le_def le32_def le16_def)
  have s: "interleavedSamples ?b = [0, 0, 0x80, 0x3F, 0, 0, 0x80, 0xBF]"
    by (simp add: interleavedSamples_def upt_rec le32_def)
  have "audioBufferToWav ?b = Some (wavHeader 2 44100 1 @ interleavedSamples ?b)"
    using audioBufferToWav_layout [of ?b] by simp
  then show ?thesis
    by (simp only: h s) simp
qed

subsection \<open>Parameter-lock resolution\<close>

lemma lockWins_spreadProp: "lockWins locked base (spreadProp base locked)"
  by (simp add: lockWins_def spreadProp_def split: option.split)

lemma lockWins_None: "lockWins None base base"
  by (simp add: lockWins_def)

lemma volume_and_sends_resolution:
  "lockWins (Option.bind pl PLocks.volume) (Track.volume track) (resolvedVolume track pl) \<and>
   lockWins (Option.bind (Option.bind pl PLocks.fxSends) PartialFXSends.reverb)
            (FXSends.reverb (Track.fxSends track)) (FXSends.reverb (resolvedFXSends track pl)) \<and>
   lockWins (Option.bind (Option.bind pl PLocks.fxSends) PartialFXSends.delay)
            (FXSends.delay (Track.fxSends track)) (FXSends.delay (resolvedFXSends track pl)) \<and>
   lockWins (Option.bind (Option.bind pl PLocks.fxSends) PartialFXSends.drive)
            (FXSends.drive (Track.fxSends track)) (FXSends.drive (resolvedFXSends track pl))"
proof -
  have v: "lockWins (Option.bind pl PLocks.volume) (Track.volume track) (resolvedVolume track pl)"
    by (simp add: resolvedVolume_def lockWins_def split: option.split)
  show ?thesis
  proof (cases "Option.bind pl PLocks.fxSends")
    case None
    with v show ?thesis
      by (simp add: resolvedFXSends_def lockWins_None)
  next
    case (Some lock)
    with v show ?thesis
      by (simp add: resolvedFXSends_def spreadFXSends_def lockWins_spreadProp)
  qed
qed

lemma kick_resolution:
  fixes base :: KickParams
  shows "track_type track = kick \<and> Track.params track = KickP base \<longrightarrow>
    (\<exists>p. kickVoiceParams track pl = Some (p, resolvedFXSends track pl, resolvedVolume track pl) \<and>
       lockWins (Option.bind (Option.bind pl kickParams) PartialKickParams.tune) (KickParams.tune base) (KickParams.tune p) \<and>
       lockWins (Option.bind (Option.bind pl kickParams) PartialKickParams.decay) (KickParams.decay base) (KickParams.decay p) \<and>
       lockWins (Option.bind (Option.bind pl kickParams) PartialKickParams.punch) (KickParams.punch base) (KickParams.punch p) \<and>
       lockWins (Option.bind (Option.bind pl kickParams) PartialKickParams.saturation) (KickParams.saturation base) (KickParams.saturation p) \<and>
       lockWins (Option.bind (Option.bind pl kickParams) PartialKickParams.body) (KickParams.body base) (KickParams.body p) \<and>
       lockWins (Option.bind (Option.bind pl kickParams) PartialKickParams.tone) (KickParams.tone base) (KickParams.tone p) \<and>
       lockWins (Option.bind (Option.bind pl kickParams) PartialKickParams.transientAmount) (KickParams.transientAmount base) (KickParams.transientAmount p) \<and>
       lockWins (Option.bind (Option.bind pl kickParams) PartialKickParams.pitchEnvAmount) (KickParams.pitchEnvAmount base) (KickParams.pitchEnvAmount p) \<and>
       lockWins (Option.bind (Option.bind pl kickParams) PartialKickParams.pitchEnvDecay) (KickParams.pitchEnvDecay base) (KickParams.pitchEnvDecay p) \<and>
       lockWins (Option.bind (Option.bind pl kickParams) PartialKickParams.rumbleAmount) (KickParams.rumbleAmount base) (KickParams.rumbleAmount p) \<and>
       lockWins (Option.bind (Option.bind pl kickParams) PartialKickParams.rumbleDecay) (KickParams.rumbleDecay base) (KickParams.rumbleDecay p) \<and>
       lockWins (Option.bind (Option.bind pl kickParams) PartialKickParams.rumbleTone) (KickParams.rumbleTone base) (KickParams.rumbleTone p) \<and>
       lockWins (Option.bind (Option.bind pl kickParams) PartialKickParams.filter) (KickParams.filter base) (KickParams.filter p) \<and>
       lockWins (Option.bind (Option.bind pl kickParams) PartialKickParams.lfo1) (KickParams.lfo1 base) (KickParams.lfo1 p) \<and>
       lockWins (Option.bind (Option.bind pl kickParams) PartialKickParams.lfo2) (KickParams.lfo2 base) (KickParams.lfo2 p))"
proof (intro impI, elim conjE)
  assume t: "track_type track = kick" and b: "Track.params track = KickP base"
  show "\<exists>p. kickVoiceParams track pl = Some (p, resolvedFXSends track pl, resolvedVolume track pl) \<and>
     lockWins (Option.bind (Option.bind pl kickParams) PartialKickParams.tune) (KickParams.tune base) (KickParams.tune p) \<and>
     lockWins (Option.bind (Option.bind pl kickParams) PartialKickParams.decay) (KickParams.decay base) (KickParams.decay p) \<and>
     lockWins (Option.bind (Option.bind pl kickParams) PartialKickParams.punch) (KickParams.punch base) (KickParams.punch p) \<and>
     lockWins (Option.bind (Option.bind pl kickParams) PartialKickParams.saturation) (KickParams.saturation base) (KickParams.saturation p) \<and>
     lockWins (Option.bind (Option.bind pl kickParams) PartialKickParams.body) (KickParams.body base) (KickParams.body p) \<and>
     lockWins (Option.bind (Option.bind pl kickParams) PartialKickParams.tone) (KickParams.tone base) (KickParams.tone p) \<and>
     lockWins (Option.bind (Option.bind pl kickParams) PartialKickParams.transientAmount) (KickParams.transientAmount base) (KickParams.transientAmount p) \<and>
     lockWins (Option.bind (Option.bind pl kickParams) PartialKickParams.pitchEnvAmount) (KickParams.pitchEnvAmount base) (KickParams.pitchEnvAmount p) \<and>
     lockWins (Option.bind (Option.bind pl kickParams) PartialKickParams.pitchEnvDecay) (KickParams.pitchEnvDecay base) (KickParams.pitchEnvDecay p) \<and>
     lockWins (Option.bind (Option.bind pl kickParams) PartialKickParams.rumbleAmount) (KickParams.rumbleAmount base) (KickParams.rumbleAmount p) \<and>
     lockWins (Option.bind (Option.bind pl kickParams) PartialKickParams.rumbleDecay) (KickParams.rumbleDecay base) (KickParams.rumbleDecay p) \<and>
     lockWins (Option.bind (Option.bind pl kickParams) PartialKickParams.rumbleTone) (KickParams.rumbleTone base) (KickParams.rumbleTone p) \<and>
     lockWins (Option.bind (Option.bind pl kickParams) PartialKickParams.filter) (KickParams.filter base) (KickParams.filter p) \<and>
     lockWins (Option.bind (Option.bind pl kickParams) PartialKickParams.lfo1) (KickParams.lfo1 base) (KickParams.lfo1 p) \<and>
     lockWins (Option.bind (Option.bind pl kickParams) PartialKickParams.lfo2) (KickParams.lfo2 base) (KickParams.lfo2 p)"
  proof (cases "Option.bind pl kickParams")
    case None
    with t b show ?thesis
      by (simp add: kickVoiceParams_def lockWins_None)
  next
    case (Some lock)
    with t b show ?thesis
      by (simp add: kickVoiceParams_def spreadKickParams_def lockWins_spreadProp)
  qed
qed

lemma hat_resolution:
  fixes base :: HatParams
  shows "track_type track = hat \<and> Track.params track = HatP base \<longrightarrow>
    (\<exists>p. hatVoiceParams track pl = Some (p, resolvedFXSends track pl, resolvedVolume track pl) \<and>
       lockWins (Option.bind (Option.bind pl hatParams) PartialHatParams.tone) (HatParams.tone base) (HatParams.tone p) \<and>
       lockWins (Option.bind (Option.bind pl hatParams) PartialHatParams.decay) (HatParams.decay base) (HatParams.decay p) \<and>
       lockWins (Option.bind (Option.bind pl hatParams) PartialHatParams.metal) (HatParams.metal base) (HatParams.metal p) \<and>
       lockWins (Option.bind (Option.bind pl hatParams) PartialHatParams.filter) (HatParams.filter base) (HatParams.filter p) \<and>
       lockWins (Option.bind (Option.bind pl hatParams) PartialHatParams.lfo1) (HatParams.lfo1 base) (HatParams.lfo1 p) \<and>
       lockWins (Option.bind (Option.bind pl hatParams) PartialHatParams.lfo2) (HatParams.lfo2 base) (HatParams.lfo2 p))"
proof (intro impI, elim conjE)
  assume t: "track_type track = hat" and b: "Track.params track = HatP base"
  show "\<exists>p. hatVoiceParams track pl = Some (p, resolvedFXSends track pl, resolvedVolume track pl) \<and>
     lockWins (Option.bind (Option.bind pl hatParams) PartialHatParams.tone) (HatParams.tone base) (HatParams.tone p) \<and>
     lockWins (Option.bind (Option.bind pl hatParams) PartialHatParams.decay) (HatParams.decay base) (HatParams.decay p) \<and>
     lockWins (Option.bind (Option.bind pl hatParams) PartialHatParams.metal) (HatParams.metal base) (HatParams.metal p) \<and>
     lockWins (Option.bind (Option.bind pl hatParams) PartialHatParams.filter) (HatParams.filter base) (HatParams.filter p) \<and>
     lockWins (Option.bind (Option.bind pl hatParams) PartialHatParams.lfo1) (HatParams.lfo1 base) (HatParams.lfo1 p) \<and>
     lockWins (Option.bind (Option.bind pl hatParams) PartialHatParams.lfo2) (HatParams.lfo2 base) (HatParams.lfo2 p)"
  proof (cases "Option.bind pl hatParams")
    case None
    with t b show ?thesis
      by (simp add: hatVoiceParams_def lockWins_None)
  next
    case (Some lock)
    with t b show ?thesis
      by (simp add: hatVoiceParams_def spreadHatParams_def lockWins_spreadProp)
  qed
qed

lemma poly_resolution:
  fixes base :: PolyParams
  shows "track_type track = poly \<and> Track.params track = PolyP base \<longrightarrow>
    (\<exists>p. polyVoiceParams track pl = Some (p, resolvedFXSends track pl, resolvedVolume track pl) \<and>
       lockWins (Option.bind (Option.bind pl polyParams) PartialPolyParams.osc1) (PolyParams.osc1 base) (PolyParams.osc1 p) \<and>
       lockWins (Option.bind (Option.bind pl polyParams) PartialPolyParams.osc2) (PolyParams.osc2 base) (PolyParams.osc2 p) \<and>
       lockWins (Option.bind (Option.bind pl polyParams) PartialPolyParams.oscMix) (PolyParams.oscMix base) (PolyParams.oscMix p) \<and>
       lockWins (Option.bind (Option.bind pl polyParams) PartialPolyParams.noiseLevel) (PolyParams.noiseLevel base) (PolyParams.noiseLevel p) \<and>
       lockWins (Option.bind (Option.bind pl polyParams) PartialPolyParams.filter) (PolyParams.filter base) (PolyParams.filter p) \<and>
       lockWins (Option.bind (Option.bind pl polyParams) PartialPolyParams.ampEnv) (PolyParams.ampEnv base) (PolyParams.ampEnv p) \<and>
       lockWins (Option.bind (Option.bind pl polyParams) PartialPolyParams.filterEnv) (PolyParams.filterEnv base) (PolyParams.filterEnv p) \<and>
       lockWins (Option.bind (Option.bind pl polyParams) PartialPolyParams.lfo1) (PolyParams.lfo1 base) (PolyParams.lfo1 p) \<and>
       lockWins (Option.bind (Option.bind pl polyParams) PartialPolyParams.lfo2) (PolyParams.lfo2 base) (PolyParams.lfo2 p))"
proof (intro impI, elim conjE)
  assume t: "track_type track = poly" and b: "Track.params track = PolyP base"
  show "\<exists>p. polyVoiceParams track pl = Some (p, resolvedFXSends track pl, resolvedVolume track pl) \<and>
     lockWins (Option.bind (Option.bind pl polyParams) PartialPolyParams.osc1) (PolyParams.osc1 base) (PolyParams.osc1 p) \<and>
     lockWins (Option.bind (Option.bind pl polyParams) PartialPolyParams.osc2) (PolyParams.osc2 base) (PolyParams.osc2 p) \<and>
     lockWins (Option.bind (Option.bind pl polyParams) PartialPolyParams.oscMix) (PolyParams.oscMix base) (PolyParams.oscMix p) \<and>
     lockWins (Option.bind (Option.bind pl polyParams) PartialPolyParams.noiseLevel) (PolyParams.noiseLevel base) (PolyParams.noiseLevel p) \<and>
     lockWins (Option.bind (Option.bind pl polyParams) PartialPolyParams.filter) (PolyParams.filter base) (PolyParams.filter p) \<and>
     lockWins (Option.bind (Option.bind pl polyParams) PartialPolyParams.ampEnv) (PolyParams.ampEnv base) (PolyParams.ampEnv p) \<and>
     lockWins (Option.bind (Option.bind pl polyParams) PartialPolyParams.filterEnv) (PolyParams.filterEnv base) (PolyParams.filterEnv p) \<and>
     lockWins (Option.bind (Option.bind pl polyParams) PartialPolyParams.lfo1) (PolyParams.lfo1 base) (PolyParams.lfo1 p) \<and>
     lockWins (Option.bind (Option.bind pl polyParams) PartialPolyParams.lfo2) (PolyParams.lfo2 base) (PolyParams.lfo2 p)"
  proof (cases "Option.bind pl polyParams")
    case None
    with t b show ?thesis
      by (simp add: polyVoiceParams_def lockWins_None)
  next
    case (Some lock)
    with t b show ?thesis
      by (simp add: polyVoiceParams_def spreadPolyParams_def lockWins_spreadProp)
  qed
qed

lemma bass_resolution:
  fixes base :: BassParams
  shows "track_type track = bass \<and> Track.params track = BassP base \<longrightarrow>
    (\<exists>p. bassVoiceParams track pl = Some (p, resolvedFXSends track pl, resolvedVolume track pl) \<and>
       lockWins (Option.bind (Option.bind pl bassParams) PartialBassParams.waveform) (BassParams.waveform base) (BassParams.waveform p) \<and>
       lockWins (Option.bind (Option.bind pl bassParams) PartialBassParams.cutoff) (BassParams.cutoff base) (BassParams.cutoff p) \<and>
       lockWins (Option.bind (Option.bind pl bassParams) PartialBassParams.resonance) (BassParams.resonance base) (BassParams.resonance p) \<and>
       lockWins (Option.bind (Option.bind pl bassParams) PartialBassParams.decay) (BassParams.decay base) (BassParams.decay p) \<and>
       lockWins (Option.bind (Option.bind pl bassParams) PartialBassParams.accent) (BassParams.accent base) (BassParams.accent p) \<and>
       lockWins (Option.bind (Option.bind pl bassParams) PartialBassParams.filter) (BassParams.filter base) (BassParams.filter p) \<and>
       lockWins (Option.bind (Option.bind pl bassParams) PartialBassParams.lfo1) (BassParams.lfo1 base) (BassParams.lfo1 p) \<and>
       lockWins (Option.bind (Option.bind pl bassParams) PartialBassParams.lfo2) (BassParams.lfo2 base) (BassParams.lfo2 p))"
proof (intro impI, elim conjE)
  assume t: "track_type track = bass" and b: "Track.params track = BassP base"
  show "\<exists>p. bassVoiceParams track pl = Some (p, resolvedFXSends track pl, resolvedVolume track pl) \<and>
     lockWins (Option.bind (Option.bind pl bassParams) PartialBassParams.waveform) (BassParams.waveform base) (BassParams.waveform p) \<and>
     lockWins (Option.bind (Option.bind pl bassParams) PartialBassParams.cutoff) (BassParams.cutoff base) (BassParams.cutoff p) \<and>
     lockWins (Option.bind (Option.bind pl bassParams) PartialBassParams.resonance) (BassParams.resonance base) (BassParams.resonance p) \<and>
     lockWins (Option.bind (Option.bind pl bassParams) PartialBassParams.decay) (BassParams.decay base) (BassParams.decay p) \<and>
     lockWins (Option.bind (Option.bind pl bassParams) PartialBassParams.accent) (BassParams.accent base) (BassParams.accent p) \<and>
     lockWins (Option.bind (Option.bind pl bassParams) PartialBassParams.filter) (BassParams.filter base) (BassParams.filter p) \<and>
     lockWins (Option.bind (Option.bind pl bassParams) PartialBassParams.lfo1) (BassParams.lfo1 base) (BassParams.lfo1 p) \<and>
     lockWins (Option.bind (Option.bind pl bassParams) PartialBassParams.lfo2) (BassParams.lfo2 base) (BassParams.lfo2 p)"
  proof (cases "Option.bind pl bassParams")
    case None
    with t b show ?thesis
      by (simp add: bassVoiceParams_def lockWins_None)
  next
    case (Some lock)
    with t b show ?thesis
      by (simp add: bassVoiceParams_def spreadBassParams_def lockWins_spreadProp)
  qed
qed

lemma modal_resolution:
  fixes base :: ModalParams
  shows "track_type track = modal \<and> Track.params track = ModalP base \<longrightarrow>
    (\<exists>p. modalVoiceParams track pl = Some (p, resolvedFXSends track pl, resolvedVolume track pl) \<and>
       lockWins (Option.bind (Option.bind pl modalParams) PartialModalParams.structure') (ModalParams.structure' base) (ModalParams.structure' p) \<and>
       lockWins (Option.bind (Option.bind pl modalParams) PartialModalParams.brightness) (ModalParams.brightness base) (ModalParams.brightness p) \<and>
       lockWins (Option.bind (Option.bind pl modalParams) PartialModalParams.decay) (ModalParams.decay base) (ModalParams.decay p) \<and>
       lockWins (Option.bind (Option.bind pl modalParams) PartialModalParams.damping) (ModalParams.damping base) (ModalParams.damping p) \<and>
       lockWins (Option.bind (Option.bind pl modalParams) PartialModalParams.filter) (ModalParams.filter base) (ModalParams.filter p) \<and>
       lockWins (Option.bind (Option.bind pl modalParams) PartialModalParams.lfo1) (ModalParams.lfo1 base) (ModalParams.lfo1 p) \<and>
       lockWins (Option.bind (Option.bind pl modalParams) PartialModalParams.lfo2) (ModalParams.lfo2 base) (ModalParams.lfo2 p))"
proof (intro impI, elim conjE)
  assume t: "track_type track = modal" and b: "Track.params track = ModalP base"
  show "\<exists>p. modalVoiceParams track pl = Some (p, resolvedFXSends track pl, resolvedVolume track pl) \<and>
     lockWins (Option.bind (Option.bind pl modalParams) PartialModalParams.structure') (ModalParams.structure' base) (ModalParams.structure' p) \<and>
     lockWins (Option.bind (Option.bind pl modalParams) PartialModalParams.brightness) (ModalParams.brightness base) (ModalParams.brightness p) \<and>
     lockWins (Option.bind (Option.bind pl modalParams) PartialModalParams.decay) (ModalParams.decay base) (ModalParams.decay p) \<and>
     lockWins (Option.bind (Option.bind pl modalParams) PartialModalParams.damping) (ModalParams.damping base) (ModalParams.damping p) \<and>
     lockWins (Option.bind (Option.bind pl modalParams) PartialModalParams.filter) (ModalParams.filter base) (ModalParams.filter p) \<and>
     lockWins (Option.bind (Option.bind pl modalParams) PartialModalParams.lfo1) (ModalParams.lfo1 base) (ModalParams.lfo1 p) \<and>
     lockWins (Option.bind (Option.bind pl modalParams) PartialModalParams.lfo2) (ModalParams.lfo2 base) (ModalParams.lfo2 p)"
  proof (cases "Option.bind pl modalParams")
    case None
    with t b show ?thesis
      by (simp add: modalVoiceParams_def lockWins_None)
  next
    case (Some lock)
    with t b show ?thesis
      by (simp add: modalVoiceParams_def spreadModalParams_def lockWins_spreadProp)
  qed
qed

lemma rift_resolution:
  fixes base :: RiftParams
  shows "track_type track = rift \<and> Track.params track = RiftP base \<longrightarrow>
    (\<exists>p. riftVoiceParams track pl = Some (p, resolvedFXSends track pl, resolvedVolume track pl) \<and>
       lockWins (Option.bind (Option.bind pl riftParams) PartialRiftParams.pitch) (RiftParams.pitch base) (RiftParams.pitch p) \<and>
       lockWins (Option.bind (Option.bind pl riftParams) PartialRiftParams.fold) (RiftParams.fold base) (RiftParams.fold p) \<and>
       lockWins (Option.bind (Option.bind pl riftParams) PartialRiftParams.drive) (RiftParams.drive base) (RiftParams.drive p) \<and>
       lockWins (Option.bind (Option.bind pl riftParams) PartialRiftParams.feedback) (RiftParams.feedback base) (RiftParams.feedback p) \<and>
       lockWins (Option.bind (Option.bind pl riftParams) PartialRiftParams.decay) (RiftParams.decay base) (RiftParams.decay p) \<and>
       lockWins (Option.bind (Option.bind pl riftParams) PartialRiftParams.filter) (RiftParams.filter base) (RiftParams.filter p) \<and>
       lockWins (Option.bind (Option.bind pl riftParams) PartialRiftParams.lfo1) (RiftParams.lfo1 base) (RiftParams.lfo1 p) \<and>
       lockWins (Option.bind (Option.bind pl riftParams) PartialRiftParams.lfo2) (RiftParams.lfo2 base) (RiftParams.lfo2 p))"
proof (intro impI, elim conjE)
  assume t: "track_type track = rift" and b: "Track.params track = RiftP base"
  show "\<exists>p. riftVoiceParams track pl = Some (p, resolvedFXSends track pl, resolvedVolume track pl) \<and>
     lockWins (Option.bind (Option.bind pl riftParams) PartialRiftParams.pitch) (RiftParams.pitch base) (RiftParams.pitch p) \<and>
     lockWins (Option.bind (Option.bind pl riftParams) PartialRiftParams.fold) (RiftParams.fold base) (RiftParams.fold p) \<and>
     lockWins (Option.bind (Option.bind pl riftParams) PartialRiftParams.drive) (RiftParams.drive base) (RiftParams.drive p) \<and>
     lockWins (Option.bind (Option.bind pl riftParams) PartialRiftParams.feedback) (RiftParams.feedback base) (RiftParams.feedback p) \<and>
     lockWins (Option.bind (Option.bind pl riftParams) PartialRiftParams.decay) (RiftParams.decay base) (RiftParams.decay p) \<and>
     lockWins (Option.bind (Option.bind pl riftParams) PartialRiftParams.filter) (RiftParams.filter base) (RiftParams.filter p) \<and>
     lockWins (Option.bind (Option.bind pl riftParams) PartialRiftParams.lfo1) (RiftParams.lfo1 base) (RiftParams.lfo1 p) \<and>
     lockWins (Option.bind (Option.bind pl riftParams) PartialRiftParams.lfo2) (RiftParams.lfo2 base) (RiftParams.lfo2 p)"
  proof (cases "Option.bind pl riftParams")
    case None
    with t b show ?thesis
      by (simp add: riftVoiceParams_def lockWins_None)
  next
    case (Some lock)
    with t b show ?thesis
      by (simp add: riftVoiceParams_def spreadRiftParams_def lockWins_spreadProp)
  qed
qed

lemma grain_resolution:
  fixes base :: GrainParams
  shows "track_type track = grain \<and> Track.params track = GrainP base \<longrightarrow>
    (\<exists>p. grainVoiceParams track pl = Some (p, resolvedFXSends track pl, resolvedVolume track pl) \<and>
       lockWins (Option.bind (Option.bind pl grainParams) PartialGrainParams.pitch) (GrainParams.pitch base) (GrainParams.pitch p) \<and>
       lockWins (Option.bind (Option.bind pl grainParams) PartialGrainParams.decay) (GrainParams.decay base) (GrainParams.decay p) \<and>
       lockWins (Option.bind (Option.bind pl grainParams) PartialGrainParams.density) (GrainParams.density base) (GrainParams.density p) \<and>
       lockWins (Option.bind (Option.bind pl grainParams) PartialGrainParams.spread) (GrainParams.spread base) (GrainParams.spread p) \<and>
       lockWins (Option.bind (Option.bind pl grainParams) PartialGrainParams.grainSize) (GrainParams.grainSize base) (GrainParams.grainSize p) \<and>
       lockWins (Option.bind (Option.bind pl grainParams) PartialGrainParams.filter) (GrainParams.filter base) (GrainParams.filter p) \<and>
       lockWins (Option.bind (Option.bind pl grainParams) PartialGrainParams.lfo1) (GrainParams.lfo1 base) (GrainParams.lfo1 p) \<and>
       lockWins (Option.bind (Option.bind pl grainParams) PartialGrainParams.lfo2) (GrainParams.lfo2 base) (GrainParams.lfo2 p))"
proof (intro impI, elim conjE)
  assume t: "track_type track = grain" and b: "Track.params track = GrainP base"
  show "\<exists>p. grainVoiceParams track pl = Some (p, resolvedFXSends track pl, resolvedVolume track pl) \<and>
     lockWins (Option.bind (Option.bind pl grainParams) PartialGrainParams.pitch) (GrainParams.pitch base) (GrainParams.pitch p) \<and>
     lockWins (Option.bind (Option.bind pl grainParams) PartialGrainParams.decay) (GrainParams.decay base) (GrainParams.decay p) \<and>
     lockWins (Option.bind (Option.bind pl grainParams) PartialGrainParams.density) (GrainParams.density base) (GrainParams.density p) \<and>
     lockWins (Option.bind (Option.bind pl grainParams) PartialGrainParams.spread) (GrainParams.spread base) (GrainParams.spread p) \<and>
     lockWins (Option.bind (Option.bind pl grainParams) PartialGrainParams.grainSize) (GrainParams.grainSize base) (GrainParams.grainSize p) \<and>
     lockWins (Option.bind (Option.bind pl grainParams) PartialGrainParams.filter) (GrainParams.filter base) (GrainParams.filter p) \<and>
     lockWins (Option.bind (Option.bind pl grainParams) PartialGrainParams.lfo1) (GrainParams.lfo1 base) (GrainParams.lfo1 p) \<and>
     lockWins (Option.bind (Option.bind pl grainParams) PartialGrainParams.lfo2) (GrainParams.lfo2 base) (GrainParams.lfo2 p)"
  proof (cases "Option.bind pl grainParams")
    case None
    with t b show ?thesis
      by (simp add: grainVoiceParams_def lockWins_None)
  next
    case (Some lock)
    with t b show ?thesis
      by (simp add: grainVoiceParams_def spreadGrainParams_def lockWins_spreadProp)
  qed
qed

lemma scream_resolution:
  fixes base :: ScreamParams
  shows "track_type track = scream \<and> Track.params track = ScreamP base \<longrightarrow>
    (\<exists>p. screamVoiceParams track pl = Some (p, resolvedFXSends track pl, resolvedVolume track pl) \<and>
       lockWins (Option.bind (Option.bind pl screamParams) PartialScreamParams.pitch) (ScreamParams.pitch base) (ScreamParams.pitch p) \<and>
       lockWins (Option.bind (Option.bind pl screamParams) PartialScreamParams.decay) (ScreamParams.decay base) (ScreamParams.decay p) \<and>
       lockWins (Option.bind (Option.bind pl screamParams) PartialScreamParams.feedback) (ScreamParams.feedback base) (ScreamParams.feedback p) \<and>
       lockWins (Option.bind (Option.bind pl screamParams) PartialScreamParams.damping) (ScreamParams.damping base) (ScreamParams.damping p) \<and>
       lockWins (Option.bind (Option.bind pl screamParams) PartialScreamParams.filter) (ScreamParams.filter base) (ScreamParams.filter p) \<and>
       lockWins (Option.bind (Option.bind pl screamParams) PartialScreamParams.lfo1) (ScreamParams.lfo1 base) (ScreamParams.lfo1 p) \<and>
       lockWins (Option.bind (Option.bind pl screamParams) PartialScreamParams.lfo2) (ScreamParams.lfo2 base) (ScreamParams.lfo2 p))"
proof (intro impI, elim conjE)
  assume t: "track_type track = scream" and b: "Track.params track = ScreamP base"
  show "\<exists>p. screamVoiceParams track pl = Some (p, resolvedFXSends track pl, resolvedVolume track pl) \<and>
     lockWins (Option.bind (Option.bind pl screamParams) PartialScreamParams.pitch) (ScreamParams.pitch base) (ScreamParams.pitch p) \<and>
     lockWins (Option.bind (Option.bind pl screamParams) PartialScreamParams.decay) (ScreamParams.decay base) (ScreamParams.decay p) \<and>
     lockWins (Option.bind (Option.bind pl screamParams) PartialScreamParams.feedback) (ScreamParams.feedback base) (ScreamParams.feedback p) \<and>
     lockWins (Option.bind (Option.bind pl screamParams) PartialScreamParams.damping) (ScreamParams.damping base) (ScreamParams.damping p) \<and>
     lockWins (Option.bind (Option.bind pl screamParams) PartialScreamParams.filter) (ScreamParams.filter base) (ScreamParams.filter p) \<and>
     lockWins (Option.bind (Option.bind pl screamParams) PartialScreamParams.lfo1) (ScreamParams.lfo1 base) (ScreamParams.lfo1 p) \<and>
     lockWins (Option.bind (Option.bind pl screamParams) PartialScreamParams.lfo2) (ScreamParams.lfo2 base) (ScreamParams.lfo2 p)"
  proof (cases "Option.bind pl screamParams")
    case None
    with t b show ?thesis
      by (simp add: screamVoiceParams_def lockWins_None)
  next
    case (Some lock)
    with t b show ?thesis
      by (simp add: screamVoiceParams_def spreadScreamParams_def lockWins_spreadProp)
  qed
qed

text \<open>
  C1. For every track and every lock of a step (or none), each voice constructor resolves
  each leaf of the parameter set of its kind by the same rule: the lock's value where the
  lock defines the leaf, the track's base value otherwise. The volume and each of the
  three send levels follow the rule on their own. A leaf that is a sub-record (filter,
  envelope, oscillator, LFO) is one leaf: where the lock defines it, the resolved
  sub-record is the lock's sub-record, all of its fields.
\<close>

theorem parameter_lock_resolution:
  fixes kickBase :: KickParams and hatBase :: HatParams and polyBase :: PolyParams
    and bassBase :: BassParams and modalBase :: ModalParams and riftBase :: RiftParams
    and grainBase :: GrainParams and screamBase :: ScreamParams
  shows
  "(track_type track = kick \<and> Track.params track = KickP kickBase \<longrightarrow>
      (\<exists>p. kickVoiceParams track pl = Some (p, resolvedFXSends track pl, resolvedVolume track pl) \<and>
         lockWins (Option.bind (Option.bind pl kickParams) PartialKickParams.tune) (KickParams.tune kickBase) (KickParams.tune p) \<and>
         lockWins (Option.bind (Option.bind pl kickParams) PartialKickParams.decay) (KickParams.decay kickBase) (KickParams.decay p) \<and>
         lockWins (Option.bind (Option.bind pl kickParams) PartialKickParams.punch) (KickParams.punch kickBase) (KickParams.punch p) \<and>
         lockWins (Option.bind (Option.bind pl kickParams) PartialKickParams.saturation) (KickParams.saturation kickBase) (KickParams.saturation p) \<and>
         lockWins (Option.bind (Option.bind pl kickParams) PartialKickParams.body) (KickParams.body kickBase) (KickParams.body p) \<and>
         lockWins (Option.bind (Option.bind pl kickParams) PartialKickParams.tone) (KickParams.tone kickBase) (KickParams.tone p) \<and>
         lockWins (Option.bind (Option.bind pl kickParams) PartialKickParams.transientAmount) (KickParams.transientAmount kickBase) (KickParams.transientAmount p) \<and>
         lockWins (Option.bind (Option.bind pl kickParams) PartialKickParams.pitchEnvAmount) (KickParams.pitchEnvAmount kickBase) (KickParams.pitchEnvAmount p) \<and>
         lockWins (Option.bind (Option.bind pl kickParams) PartialKickParams.pitchEnvDecay) (KickParams.pitchEnvDecay kickBase) (KickParams.pitchEnvDecay p) \<and>
         lockWins (Option.bind (Option.bind pl kickParams) PartialKickParams.rumbleAmount) (KickParams.rumbleAmount kickBase) (KickParams.rumbleAmount p) \<and>
         lockWins (Option.bind (Option.bind pl kickParams) PartialKickParams.rumbleDecay) (KickParams.rumbleDecay kickBase) (KickParams.rumbleDecay p) \<and>
         lockWins (Option.bind (Option.bind pl kickParams) PartialKickParams.rumbleTone) (KickParams.rumbleTone kickBase) (KickParams.rumbleTone p) \<and>
         lockWins (Option.bind (Option.bind pl kickParams) PartialKickParams.filter) (KickParams.filter kickBase) (KickParams.filter p) \<and>
         lockWins (Option.bind (Option.bind pl kickParams) PartialKickParams.lfo1) (KickParams.lfo1 kickBase) (KickParams.lfo1 p) \<and>
         lockWins (Option.bind (Option.bind pl kickParams) PartialKickParams.lfo2) (KickParams.lfo2 kickBase) (KickParams.lfo2 p))) \<and>
   (track_type track = hat \<and> Track.params track = HatP hatBase \<longrightarrow>
      (\<exists>p. hatVoiceParams track pl = Some (p, resolvedFXSends track pl, resolvedVolume track pl) \<and>
         lockWins (Option.bind (Option.bind pl hatParams) PartialHatParams.tone) (HatParams.tone hatBase) (HatParams.tone p) \<and>
         lockWins (Option.bind (Option.bind pl hatParams) PartialHatParams.decay) (HatParams.decay hatBase) (HatParams.decay p) \<and>
         lockWins (Option.bind (Option.bind pl hatParams) PartialHatParams.metal) (HatParams.metal hatBase) (HatParams.metal p) \<and>
         lockWins (Option.bind (Option.bind pl hatParams) PartialHatParams.filter) (HatParams.filter hatBase) (HatParams.filter p) \<and>
         lockWins (Option.bind (Option.bind pl hatParams) PartialHatParams.lfo1) (HatParams.lfo1 hatBase) (HatParams.lfo1 p) \<and>
         lockWins (Option.bind (Option.bind pl hatParams) PartialHatParams.lfo2) (HatParams.lfo2 hatBase) (HatParams.lfo2 p))) \<and>
   (track_type track = poly \<and> Track.params track = PolyP polyBase \<longrightarrow>
      (\<exists>p. polyVoiceParams track pl = Some (p, resolvedFXSends track pl, resolvedVolume track pl) \<and>
         lockWins (Option.bind (Option.bind pl polyParams) PartialPolyParams.osc1) (PolyParams.osc1 polyBase) (PolyParams.osc1 p) \<and>
         lockWins (Option.bind (Option.bind pl polyParams) PartialPolyParams.osc2) (PolyParams.osc2 polyBase) (PolyParams.osc2 p) \<and>
         lockWins (Option.bind (Option.bind pl polyParams) PartialPolyParams.oscMix) (PolyParams.oscMix polyBase) (PolyParams.oscMix p) \<and>
         lockWins (Option.bind (Option.bind pl polyParams) PartialPolyParams.noiseLevel) (PolyParams.noiseLevel polyBase) (PolyParams.noiseLevel p) \<and>
         lockWins (Option.bind (Option.bind pl polyParams) PartialPolyParams.filter) (PolyParams.filter polyBase) (PolyParams.filter p) \<and>
         lockWins (Option.bind (Option.bind pl polyParams) PartialPolyParams.ampEnv) (PolyParams.ampEnv polyBase) (PolyParams.ampEnv p) \<and>
         lockWins (Option.bind (Option.bind pl polyParams) PartialPolyParams.filterEnv) (PolyParams.filterEnv polyBase) (PolyParams.filterEnv p) \<and>
         lockWins (Option.bind (Option.bind pl polyParams) PartialPolyParams.lfo1) (PolyParams.lfo1 polyBase) (PolyParams.lfo1 p) \<and>
         lockWins (Option.bind (Option.bind pl polyParams) PartialPolyParams.lfo2) (PolyParams.lfo2 polyBase) (PolyParams.lfo2 p))) \<and>
   (track_type track = bass \<and> Track.params track = BassP bassBase \<longrightarrow>
      (\<exists>p. bassVoiceParams track pl = Some (p, resolvedFXSends track pl, resolvedVolume track pl) \<and>
         lockWins (Option.bind (Option.bind pl bassParams) PartialBassParams.waveform) (BassParams.waveform bassBase) (BassParams.waveform p) \<and>
         lockWins (Option.bind (Option.bind pl bassParams) PartialBassParams.cutoff) (BassParams.cutoff bassBase) (BassParams.cutoff p) \<and>
         lockWins (Option.bind (Option.bind pl bassParams) PartialBassParams.resonance) (BassParams.resonance bassBase) (BassParams.resonance p) \<and>
         lockWins (Option.bind (Option.bind pl bassParams) PartialBassParams.decay) (BassParams.decay bassBase) (BassParams.decay p) \<and>
         lockWins (Option.bind (Option.bind pl bassParams) PartialBassParams.accent) (BassParams.accent bassBase) (BassParams.accent p) \<and>
         lockWins (Option.bind (Option.bind pl bassParams) PartialBassParams.filter) (BassParams.filter bassBase) (BassParams.filter p) \<and>
         lockWins (Option.bind (Option.bind pl bassParams) PartialBassParams.lfo1) (BassParams.lfo1 bassBase) (BassParams.lfo1 p) \<and>
         lockWins (Option.bind (Option.bind pl bassParams) PartialBassParams.lfo2) (BassParams.lfo2 bassBase) (BassParams.lfo2 p))) \<and>
   (track_type track = modal \<and> Track.params track = ModalP modalBase \<longrightarrow>
      (\<exists>p. modalVoiceParams track pl = Some (p, resolvedFXSends track pl, resolvedVolume track pl) \<and>
         lockWins (Option.bind (Option.bind pl modalParams) PartialModalParams.structure') (ModalParams.structure' modalBase) (ModalParams.structure' p) \<and>
         lockWins (Option.bind (Option.bind pl modalParams) PartialModalParams.brightness) (ModalParams.brightness modalBase) (ModalParams.brightness p) \<and>
         lockWins (Option.bind (Option.bind pl modalParams) PartialModalParams.decay) (ModalParams.decay modalBase) (ModalParams.decay p) \<and>
         lockWins (Option.bind (Option.bind pl modalParams) PartialModalParams.damping) (ModalParams.damping modalBase) (ModalParams.damping p) \<and>
         lockWins (Option.bind (Option.bind pl modalParams) PartialModalParams.filter) (ModalParams.filter modalBase) (ModalParams.filter p) \<and>
         lockWins (Option.bind (Option.bind pl modalParams) PartialModalParams.lfo1) (ModalParams.lfo1 modalBase) (ModalParams.lfo1 p) \<and>
         lockWins (Option.bind (Option.bind pl modalParams) PartialModalParams.lfo2) (ModalParams.lfo2 modalBase) (ModalParams.lfo2 p))) \<and>
   (track_type track = rift \<and> Track.params track = RiftP riftBase \<longrightarrow>
      (\<exists>p. riftVoiceParams track pl = Some (p, resolvedFXSends track pl, resolvedVolume track pl) \<and>
         lockWins (Option.bind (Option.bind pl riftParams) PartialRiftParams.pitch) (RiftParams.pitch riftBase) (RiftParams.pitch p) \<and>
         lockWins (Option.bind (Option.bind pl riftParams) PartialRiftParams.fold) (RiftParams.fold riftBase) (RiftParams.fold p) \<and>
         lockWins (Option.bind (Option.bind pl riftParams) PartialRiftParams.drive) (RiftParams.drive riftBase) (RiftParams.drive p) \<and>
         lockWins (Option.bind (Option.bind pl riftParams) PartialRiftParams.feedback) (RiftParams.feedback riftBase) (RiftParams.feedback p) \<and>
         lockWins (Option.bind (Option.bind pl riftParams) PartialRiftParams.decay) (RiftParams.decay riftBase) (RiftParams.decay p) \<and>
         lockWins (Option.bind (Option.bind pl riftParams) PartialRiftParams.filter) (RiftParams.filter riftBase) (RiftParams.filter p) \<and>
         lockWins (Option.bind (Option.bind pl riftParams) PartialRiftParams.lfo1) (RiftParams.lfo1 riftBase) (RiftParams.lfo1 p) \<and>
         lockWins (Option.bind (Option.bind pl riftParams) PartialRiftParams.lfo2) (RiftParams.lfo2 riftBase) (RiftParams.lfo2 p))) \<and>
   (track_type track = grain \<and> Track.params track = GrainP grainBase \<longrightarrow>
      (\<exists>p. grainVoiceParams track pl = Some (p, resolvedFXSends track pl, resolvedVolume track pl) \<and>
         lockWins (Option.bind (Option.bind pl grainParams) PartialGrainParams.pitch) (GrainParams.pitch grainBase) (GrainParams.pitch p) \<and>
         lockWins (Option.bind (Option.bind pl grainParams) PartialGrainParams.decay) (GrainParams.decay grainBase) (GrainParams.decay p) \<and>
         lockWins (Option.bind (Option.bind pl grainParams) PartialGrainParams.density) (GrainParams.density grainBase) (GrainParams.density p) \<and>
         lockWins (Option.bind (Option.bind pl grainParams) PartialGrainParams.spread) (GrainParams.spread grainBase) (GrainParams.spread p) \<and>
         lockWins (Option.bind (Option.bind pl grainParams) PartialGrainParams.grainSize) (GrainParams.grainSize grainBase) (GrainParams.grainSize p) \<and>
         lockWins (Option.bind (Option.bind pl grainParams) PartialGrainParams.filter) (GrainParams.filter grainBase) (GrainParams.filter p) \<and>
         lockWins (Option.bind (Option.bind pl grainParams) PartialGrainParams.lfo1) (GrainParams.lfo1 grainBase) (GrainParams.lfo1 p) \<and>
         lockWins (Option.bind (Option.bind pl grainParams) PartialGrainParams.lfo2) (GrainParams.lfo2 grainBase) (GrainParams.lfo2 p))) \<and>
   (track_type track = scream \<and> Track.params track = ScreamP screamBase \<longrightarrow>
      (\<exists>p. screamVoiceParams track pl = Some (p, resolvedFXSends track pl, resolvedVolume track pl) \<and>
         lockWins (Option.bind (Option.bind pl screamParams) PartialScreamParams.pitch) (ScreamParams.pitch screamBase) (ScreamParams.pitch p) \<and>
         lockWins (Option.bind (Option.bind pl screamParams) PartialScreamParams.decay) (ScreamParams.decay screamBase) (ScreamParams.decay p) \<and>
         lockWins (Option.bind (Option.bind pl screamParams) PartialScreamParams.feedback) (ScreamParams.feedback screamBase) (ScreamParams.feedback p) \<and>
         lockWins (Option.bind (Option.bind pl screamParams) PartialScreamParams.damping) (ScreamParams.damping screamBase) (ScreamParams.damping p) \<and>
         lockWins (Option.bind (Option.bind pl screamParams) PartialScreamParams.filter) (ScreamParams.filter screamBase) (ScreamParams.filter p) \<and>
         lockWins (Option.bind (Option.bind pl screamParams) PartialScreamParams.lfo1) (ScreamParams.lfo1 screamBase) (ScreamParams.lfo1 p) \<and>
         lockWins (Option.bind (Option.bind pl screamParams) PartialScreamParams.lfo2) (ScreamParams.lfo2 screamBase) (ScreamParams.lfo2 p))) \<and>
   lockWins (Option.bind pl PLocks.volume) (Track.volume track) (resolvedVolume track pl) \<and>
   lockWins (Option.bind (Option.bind pl PLocks.fxSends) PartialFXSends.reverb)
            (FXSends.reverb (Track.fxSends track)) (FXSends.reverb (resolvedFXSends track pl)) \<and>
   lockWins (Option.bind (Option.bind pl PLocks.fxSends) PartialFXSends.delay)
            (FXSends.delay (Track.fxSends track)) (FXSends.delay (resolvedFXSends track pl)) \<and>
   lockWins (Option.bind (Option.bind pl PLocks.fxSends) PartialFXSends.drive)
            (FXSends.drive (Track.fxSends track)) (FXSends.drive (resolvedFXSends track pl))"
  by (intro conjI kick_resolution hat_resolution poly_resolution bass_resolution
        modal_resolution rift_resolution grain_resolution scream_resolution
        volume_and_sends_resolution [THEN conjunct1]
        volume_and_sends_resolution [THEN conjunct2, THEN conjunct1]
        volume_and_sends_resolution [THEN conjunct2, THEN conjunct2, THEN conjunct1]
        volume_and_sends_resolution [THEN conjunct2, THEN conjunct2, THEN conjunct2])

theorem parameter_lock_resolution_witness:
  "(\<exists>p. kickVoiceParams INITIAL_TRACK_KICK (Some exampleKickLock) =
          Some (p, Track.fxSends INITIAL_TRACK_KICK, 0.5) \<and>
        KickParams.decay p = 0.8 \<and> KickParams.tune p = 40 \<and>
        KickParams.filter p = KickParams.filter INITIAL_KICK_PARAMS) \<and>
   (\<exists>p. polyVoiceParams INITIAL_TRACK_POLY (Some examplePolyLock) =
          Some (p, Track.fxSends INITIAL_TRACK_POLY, 0.65) \<and>
        PolyParams.filter p = \<lparr>filter_type = Lowpass, cutoff = 500, resonance = 9, envAmount = Some 1500\<rparr> \<and>
        PolyParams.oscMix p = 50)"
proof
  note k = parameter_lock_resolution [where track = INITIAL_TRACK_KICK
      and pl = "Some exampleKickLock" and kickBase = INITIAL_KICK_PARAMS]
  have hk: "track_type INITIAL_TRACK_KICK = kick \<and>
      Track.params INITIAL_TRACK_KICK = KickP INITIAL_KICK_PARAMS"
    by (simp add: INITIAL_TRACK_KICK_def)
  have vk: "resolvedVolume INITIAL_TRACK_KICK (Some exampleKickLock) = 0.5"
    by (simp add: resolvedVolume_def exampleKickLock_def)
  have fk: "resolvedFXSends INITIAL_TRACK_KICK (Some exampleKickLock) = Track.fxSends INITIAL_TRACK_KICK"
    by (simp add: resolvedFXSends_def exampleKickLock_def emptyPLocks_def)
  from k [THEN conjunct1, rule_format, OF hk] obtain p where
    p: "kickVoiceParams INITIAL_TRACK_KICK (Some exampleKickLock) =
          Some (p, resolvedFXSends INITIAL_TRACK_KICK (Some exampleKickLock),
                resolvedVolume INITIAL_TRACK_KICK (Some exampleKickLock))"
    and d: "lockWins (Option.bind (Option.bind (Some exampleKickLock) kickParams) PartialKickParams.decay)
              (KickParams.decay INITIAL_KICK_PARAMS) (KickParams.decay p)"
    and t: "lockWins (Option.bind (Option.bind (Some exampleKickLock) kickParams) PartialKickParams.tune)
              (KickParams.tune INITIAL_KICK_PARAMS) (KickParams.tune p)"
    and f: "lockWins (Option.bind (Option.bind (Some exampleKickLock) kickParams) PartialKickParams.filter)
              (KickParams.filter INITIAL_KICK_PARAMS) (KickParams.filter p)"
    by blast
  from d have "KickParams.decay p = 0.8"
    by (simp add: lockWins_def exampleKickLock_def)
  moreover from t have "KickParams.tune p = 40"
    by (simp add: lockWins_def exampleKickLock_def emptyPartialKickParams_def INITIAL_KICK_PARAMS_def)
  moreover from f have "KickParams.filter p = KickParams.filter INITIAL_KICK_PARAMS"
    by (simp add: lockWins_def exampleKickLock_def emptyPartialKickParams_def)
  ultimately show "\<exists>p. kickVoiceParams INITIAL_TRACK_KICK (Some exampleKickLock) =
          Some (p, Track.fxSends INITIAL_TRACK_KICK, 0.5) \<and>
        KickParams.decay p = 0.8 \<and> KickParams.tune p = 40 \<and>
        KickParams.filter p = KickParams.filter INITIAL_KICK_PARAMS"
    using p vk fk by auto
next
  note k = parameter_lock_resolution [where track = INITIAL_TRACK_POLY
      and pl = "Some examplePolyLock" and polyBase = INITIAL_POLY_PARAMS]
  have hk: "track_type INITIAL_TRACK_POLY = poly \<and>
      Track.params INITIAL_TRACK_POLY = PolyP INITIAL_POLY_PARAMS"
    by (simp add: INITIAL_TRACK_POLY_def)
  have vk: "resolvedVolume INITIAL_TRACK_POLY (Some examplePolyLock) = 0.65"
    by (simp add: resolvedVolume_def examplePolyLock_def emptyPLocks_def INITIAL_TRACK_POLY_def)
  have fk: "resolvedFXSends INITIAL_TRACK_POLY (Some examplePolyLock) = Track.fxSends INITIAL_TRACK_POLY"
    by (simp add: resolvedFXSends_def examplePolyLock_def emptyPLocks_def)
  from k [THEN conjunct2, THEN conjunct2, THEN conjunct1, rule_format, OF hk] obtain p where
    p: "polyVoiceParams INITIAL_TRACK_POLY (Some examplePolyLock) =
          Some (p, resolvedFXSends INITIAL_TRACK_POLY (Some examplePolyLock),
                resolvedVolume INITIAL_TRACK_POLY (Some examplePolyLock))"
    and f: "lockWins (Option.bind (Option.bind (Some examplePolyLock) polyParams) PartialPolyParams.filter)
              (PolyParams.filter INITIAL_POLY_PARAMS) (PolyParams.filter p)"
    and m: "lockWins (Option.bind (Option.bind (Some examplePolyLock) polyParams) PartialPolyParams.oscMix)
              (PolyParams.oscMix INITIAL_POLY_PARAMS) (PolyParams.oscMix p)"
    by blast
  from f have "PolyParams.filter p = \<lparr>filter_type = Lowpass, cutoff = 500, resonance = 9, envAmount = Some 1500\<rparr>"
    by (simp add: lockWins_def examplePolyLock_def)
  moreover from m have "PolyParams.oscMix p = 50"
    by (simp add: lockWins_def examplePolyLock_def emptyPartialPolyParams_def INITIAL_POLY_PARAMS_def)
  ultimately show "\<exists>p. polyVoiceParams INITIAL_TRACK_POLY (Some examplePolyLock) =
          Some (p, Track.fxSends INITIAL_TRACK_POLY, 0.65) \<and>
        PolyParams.filter p = \<lparr>filter_type = Lowpass, cutoff = 500, resonance = 9, envAmount = Some 1500\<rparr> \<and>
        PolyParams.oscMix p = 50"
    using p vk fk by auto
qed

subsection \<open>The filter-envelope amount of the Poly voice\<close>

lemma filterEnvAmount_locked:
  "legacyEnvAmount pl = Some v \<Longrightarrow> filterEnvAmount pl p = (if v \<noteq> 0 then 3000 else 0)"
  by (simp add: filterEnvAmount_def)

lemma filterEnvAmount_unlocked:
  "legacyEnvAmount pl = None \<Longrightarrow>
     filterEnvAmount pl p = (if Envelope.attack (PolyParams.filterEnv p) > 0 then 3000 else 0)"
  by (simp add: filterEnvAmount_def)

lemma filterEnvAmount_values: "filterEnvAmount pl p = 3000 \<or> filterEnvAmount pl p = 0"
  by (simp add: filterEnvAmount_def Let_def)

lemma filterEnvAmount_agrees_unlocked:
  "legacyEnvAmount pl = None \<Longrightarrow> filterEnvAmount pl p = filterEnvAmount_as_described pl p"
  by (simp add: filterEnvAmount_def filterEnvAmount_as_described_def)

lemma no_envelope_iff_zero: "hasFilterEnvelope pl p \<longleftrightarrow> filterEnvAmount pl p \<noteq> 0"
  by (simp add: hasFilterEnvelope_def)

text \<open>
  C6. With a lock whose filter carries \<open>envAmount = 1500\<close>, on the initial Poly track, the
  voice computes the amount 3000, not 1500: the locked value only decides between 3000
  and 0. The reading with the fallback in parentheses gives 1500.
\<close>

theorem poly_filterEnvAmount_locked_1500:
  "polyVoiceFilterEnvAmount INITIAL_TRACK_POLY (Some examplePolyLock) = Some 3000 \<and>
   filterEnvAmount_as_described (Some examplePolyLock) INITIAL_POLY_PARAMS = 1500"
proof -
  have l: "legacyEnvAmount (Some examplePolyLock) = Some 1500"
    by (simp add: legacyEnvAmount_def examplePolyLock_def)
  have "\<exists>p f v. polyVoiceParams INITIAL_TRACK_POLY (Some examplePolyLock) = Some (p, f, v)"
    by (simp add: polyVoiceParams_def INITIAL_TRACK_POLY_def)
  then obtain p f v where "polyVoiceParams INITIAL_TRACK_POLY (Some examplePolyLock) = Some (p, f, v)"
    by blast
  then have "polyVoiceFilterEnvAmount INITIAL_TRACK_POLY (Some examplePolyLock) = Some 3000"
    by (simp add: polyVoiceFilterEnvAmount_def filterEnvAmount_locked [OF l])
  moreover have "filterEnvAmount_as_described (Some examplePolyLock) INITIAL_POLY_PARAMS = 1500"
    by (simp add: filterEnvAmount_as_described_def l)
  ultimately show ?thesis by simp
qed

subsection \<open>Feedback gains\<close>

lemma riftFeedbackGain_bound:
  assumes "RiftParams.feedback r \<le> 95"
  shows "riftFeedbackGain r \<le> 0.9025"
  using assms by (simp add: riftFeedbackGain_def)

lemma screamFeedbackGain_bound: "screamFeedbackGain s \<le> 0.99"
  by (simp add: screamFeedbackGain_def)

text \<open>
  C4, as the code has it. The gain given to the feedback node is below 1 for the global
  delay when the feedback parameter lies in the range of its control, 0 to 0.95
  (\<open>updateDelay\<close> passes it on as it is), for the Rift voice when the feedback lies in the
  range of its control, 0 to 95, and for the Scream voice for every feedback. The rumble
  chain of the Kick is another matter: its ducking gain is the constant 1 and its send
  gain is \<open>rumbleAmount / 100\<close>, at most 1 on the range 0 to 100 of the control.
\<close>

theorem feedback_gains_below_one:
  "(0 \<le> DelayParams.feedback d \<and> DelayParams.feedback d \<le> 0.95 \<longrightarrow>
      delayFeedback_gain (updateDelay d bpm) < 1) \<and>
   (0 \<le> RiftParams.feedback r \<and> RiftParams.feedback r \<le> 95 \<longrightarrow> riftFeedbackGain r < 1) \<and>
   screamFeedbackGain s < 1 \<and>
   (\<forall>k. kickRumble kp = Some k \<longrightarrow>
      duckingAmount_gain k = 1 \<and>
      (KickParams.rumbleAmount kp \<le> 100 \<longrightarrow> rumblePreGain_gain k \<le> 1))"
proof (intro conjI impI allI)
  assume "0 \<le> DelayParams.feedback d \<and> DelayParams.feedback d \<le> 0.95"
  then show "delayFeedback_gain (updateDelay d bpm) < 1"
    by (simp add: updateDelay_def Let_def)
next
  assume "0 \<le> RiftParams.feedback r \<and> RiftParams.feedback r \<le> 95"
  then have "riftFeedbackGain r \<le> 0.9025"
    by (intro riftFeedbackGain_bound) simp
  then show "riftFeedbackGain r < 1" by simp
next
  from screamFeedbackGain_bound [of s] show "screamFeedbackGain s < 1" by simp
next
  fix k assume "kickRumble kp = Some k"
  then show "duckingAmount_gain k = 1"
    by (auto simp: kickRumble_def split: if_splits)
next
  fix k assume "kickRumble kp = Some k" and "KickParams.rumbleAmount kp \<le> 100"
  then show "rumblePreGain_gain k \<le> 1"
    by (auto simp: kickRumble_def split: if_splits)
qed

theorem feedback_gains_below_one_witness:
  "delayFeedback_gain (updateDelay \<lparr>time = 0.3, feedback = 0.4, mix = 0.3, timeSync = True, timeDivision = 0.75\<rparr> 120) < 1 \<and>
   riftFeedbackGain \<lparr>RiftParams.pitch = 0, RiftParams.fold = 30, RiftParams.drive = 20,
      RiftParams.feedback = 95, RiftParams.decay = 0.25,
      RiftParams.filter = \<lparr>filter_type = Lowpass, cutoff = 6000, resonance = 5, envAmount = None\<rparr>,
      RiftParams.lfo1 = NEUTRAL_LFO, RiftParams.lfo2 = NEUTRAL_LFO\<rparr> < 1 \<and>
   kickRumble INITIAL_KICK_PARAMS = Some \<lparr>rumblePreGain_gain = 0.3, duckingAmount_gain = 1\<rparr>"
proof -
  let ?d = "\<lparr>time = 0.3, feedback = 0.4, mix = 0.3, timeSync = True, timeDivision = 0.75\<rparr>"
  let ?r = "\<lparr>RiftParams.pitch = 0, RiftParams.fold = 30, RiftParams.drive = 20,
      RiftParams.feedback = 95, RiftParams.decay = 0.25,
      RiftParams.filter = \<lparr>filter_type = Lowpass, cutoff = 6000, resonance = 5, envAmount = None\<rparr>,
      RiftParams.lfo1 = NEUTRAL_LFO, RiftParams.lfo2 = NEUTRAL_LFO\<rparr>"
  note t = feedback_gains_below_one [where d = ?d and bpm = 120 and r = ?r and kp = INITIAL_KICK_PARAMS]
  have "delayFeedback_gain (updateDelay ?d 120) < 1"
    using t [THEN conjunct1] by simp
  moreover have "riftFeedbackGain ?r < 1"
    using t [THEN conjunct2, THEN conjunct1] by simp
  moreover have k: "kickRumble INITIAL_KICK_PARAMS = Some \<lparr>rumblePreGain_gain = 0.3, duckingAmount_gain = 1\<rparr>"
    by (simp add: kickRumble_def INITIAL_KICK_PARAMS_def)
  moreover have "duckingAmount_gain \<lparr>rumblePreGain_gain = 0.3, duckingAmount_gain = 1\<rparr> = 1"
    using t [THEN conjunct2, THEN conjunct2, THEN conjunct2, rule_format, OF k] by simp
  ultimately show ?thesis by simp
qed

text \<open>
  The claim as stated fails at the Kick: on the initial Kick track the rumble chain is
  built and its ducking gain is 1, which is not below 1.
\<close>

theorem kick_ducking_gain_is_one:
  "map_option duckingAmount_gain (kickVoiceRumble INITIAL_TRACK_KICK None) = Some 1 \<and>
   \<not> ((1 :: real) < 1)"
  by (simp add: kickVoiceRumble_def kickVoiceParams_def kickRumble_def
        INITIAL_TRACK_KICK_def INITIAL_KICK_PARAMS_def resolvedFXSends_def resolvedVolume_def)

subsection \<open>Placing a lock changes one step only\<close>

lemma triggerParams_no_lock:
  assumes "paramsMatchType track"
  shows "triggerParams track None = Some (Track.params track, Track.fxSends track, Track.volume track)"
  using assms
  by (cases "Track.params track")
     (simp_all add: paramsMatchType_def triggerParams_def resolvedFXSends_def resolvedVolume_def
        kickVoiceParams_def hatVoiceParams_def polyVoiceParams_def bassVoiceParams_def
        modalVoiceParams_def riftVoiceParams_def grainVoiceParams_def screamVoiceParams_def)

lemma lockStep_fields:
  assumes "lockStep setLeaf k track = Some track'"
  shows "k < length (steps track) \<and>
         track' = track\<lparr>steps := (steps track)[k := (steps track ! k)\<lparr>pLocks :=
                    Some (setLeaf (case pLocks (steps track ! k) of None \<Rightarrow> emptyPLocks | Some p \<Rightarrow> p))\<rparr>]\<rparr>"
  using assms by (auto simp: lockStep_def Let_def split: if_splits)

lemma arrayGet_update_other:
  assumes "i \<noteq> int k"
  shows "arrayGet (xs[k := x]) (Val i) = arrayGet xs (Val i)"
proof (cases "0 \<le> i \<and> i < int (length xs)")
  case True
  with assms have "nat i \<noteq> k" by auto
  with True show ?thesis by (simp add: arrayGet_def)
next
  case False
  then show ?thesis by (auto simp: arrayGet_def)
qed

text \<open>
  C7. Placing a lock on step 3 of a track (any leaf, any value) leaves the base
  parameters, the send levels, the volume, the type, the pattern length and the default
  note of the track as they were, and every step other than step 3; step 3 itself changes
  in its lock only. If step 5 has no lock, then what \<open>trigger\<close> resolves for step 5 of the
  new track is exactly the base of the track: its parameters, send levels and volume.
\<close>

theorem lock_on_step_3_frame:
  assumes "lockStep setLeaf 3 track = Some track'"
    and "paramsMatchType track"
    and "arrayGet (steps track) (Val 5) = Some s5"
    and "pLocks s5 = None"
  shows "Track.params track' = Track.params track \<and>
         Track.fxSends track' = Track.fxSends track \<and>
         Track.volume track' = Track.volume track \<and>
         track_type track' = track_type track \<and>
         patternLength track' = patternLength track \<and>
         defaultNote track' = defaultNote track \<and>
         length (steps track') = length (steps track) \<and>
         (\<forall>i. i \<noteq> 3 \<longrightarrow> arrayGet (steps track') (Val i) = arrayGet (steps track) (Val i)) \<and>
         (\<exists>pl. steps track' ! 3 = (steps track ! 3)\<lparr>pLocks := Some pl\<rparr>) \<and>
         arrayGet (steps track') (Val 5) = Some s5 \<and>
         triggerParams track' (pLocks s5) =
           Some (Track.params track, Track.fxSends track, Track.volume track)"
proof -
  from lockStep_fields [OF assms(1)] have k: "3 < length (steps track)"
    and t: "track' = track\<lparr>steps := (steps track)[3 := (steps track ! 3)\<lparr>pLocks :=
                    Some (setLeaf (case pLocks (steps track ! 3) of None \<Rightarrow> emptyPLocks | Some p \<Rightarrow> p))\<rparr>]\<rparr>"
    by simp_all
  have others: "arrayGet (steps track') (Val i) = arrayGet (steps track) (Val i)" if "i \<noteq> 3" for i
    using that by (simp add: t arrayGet_update_other)
  have p1: "Track.params track' = Track.params track"
    by (simp add: t)
  have p2: "track_type track' = track_type track"
    by (simp add: t)
  have m: "paramsMatchType track'"
    using assms(2) unfolding paramsMatchType_def p1 p2 .
  have "triggerParams track' None = Some (Track.params track', Track.fxSends track', Track.volume track')"
    by (rule triggerParams_no_lock [OF m])
  then have r: "triggerParams track' (pLocks s5) =
      Some (Track.params track, Track.fxSends track, Track.volume track)"
    by (simp add: assms(4) t)
  have s3: "\<exists>pl. steps track' ! 3 = (steps track ! 3)\<lparr>pLocks := Some pl\<rparr>"
    using k by (simp add: t) blast
  from others [of 5] assms(3) have s5: "arrayGet (steps track') (Val 5) = Some s5"
    by simp
  show ?thesis
    using others r s3 s5 by (simp add: t)
qed

theorem lock_on_step_3_frame_witness:
  "(\<exists>track'. lockStep (setKickDecay 0.8) 3 INITIAL_TRACK_KICK = Some track' \<and>
      Track.params track' = KickP INITIAL_KICK_PARAMS \<and>
      arrayGet (steps track') (Val 5) = Some \<lparr>active = False, pLocks = None, note' = None, velocity = 1\<rparr> \<and>
      triggerParams track' None =
        Some (KickP INITIAL_KICK_PARAMS, Track.fxSends INITIAL_TRACK_KICK, 0.9))"
proof -
  let ?s = "\<lparr>active = False, pLocks = None, note' = None, velocity = 1\<rparr>"
  have len: "length (steps INITIAL_TRACK_KICK) = 16"
    by (simp add: INITIAL_TRACK_KICK_def createEmptySteps_def STEPS_def)
  then have "\<exists>track'. lockStep (setKickDecay 0.8) 3 INITIAL_TRACK_KICK = Some track'"
    by (simp add: lockStep_def Let_def)
  then obtain track' where a1: "lockStep (setKickDecay 0.8) 3 INITIAL_TRACK_KICK = Some track'"
    by blast
  have a2: "paramsMatchType INITIAL_TRACK_KICK"
    by (simp add: paramsMatchType_def INITIAL_TRACK_KICK_def)
  have a3: "arrayGet (steps INITIAL_TRACK_KICK) (Val 5) = Some ?s"
    by (simp add: arrayGet_def INITIAL_TRACK_KICK_def createEmptySteps_def STEPS_def)
  have a4: "pLocks ?s = None"
    by simp
  note t = lock_on_step_3_frame [OF a1 a2 a3 a4]
  from t have "Track.params track' = KickP INITIAL_KICK_PARAMS"
    by (simp add: INITIAL_TRACK_KICK_def)
  moreover from t have "arrayGet (steps track') (Val 5) = Some ?s"
    by simp
  moreover from t have "triggerParams track' None =
      Some (KickP INITIAL_KICK_PARAMS, Track.fxSends INITIAL_TRACK_KICK, 0.9)"
    by (simp add: INITIAL_TRACK_KICK_def)
  ultimately show ?thesis
    using a1 by blast
qed

subsection \<open>Step indices of the scheduler and of the export\<close>

text \<open>
  Times are real numbers in these statements. The source keeps them in binary floating
  point; at 120 bpm the step time is 0.125, so every sum and product of step times below
  is exact there as well.
\<close>

lemma jsRem_nonneg:
  assumes "0 \<le> a" "0 < b"
  shows "jsRem a b = Val (a mod b)"
proof (cases "a = 0")
  case True
  with assms show ?thesis by (simp add: jsRem_def)
next
  case False
  with assms have "sgn a = 1" by simp
  with assms show ?thesis by (simp add: jsRem_def)
qed

lemma stepTime_pos: "0 < bpm \<Longrightarrow> 0 < stepTime bpm"
  by (simp add: stepTime_def)

lemma stepTime_120: "stepTime 120 = 1 / 8"
  by (simp add: stepTime_def)

lemma localCurrentStep_nonneg:
  assumes "0 < bpm" "0 \<le> t"
  shows "localCurrentStep bpm t = Val (\<lfloor>t / stepTime bpm\<rfloor> mod 16)"
proof -
  from assms stepTime_pos [of bpm] have "0 \<le> t / stepTime bpm" by simp
  then have "0 \<le> \<lfloor>t / stepTime bpm\<rfloor>" by simp
  then show ?thesis
    unfolding localCurrentStep_def by (intro jsRem_nonneg) simp_all
qed

lemma localCurrentStep_at_multiple:
  assumes "0 < bpm"
  shows "localCurrentStep bpm (real i * stepTime bpm) = Val (int i mod 16)"
proof -
  from stepTime_pos [OF assms] have "real i * stepTime bpm / stepTime bpm = real i" by simp
  moreover have "0 \<le> real i * stepTime bpm"
    using stepTime_pos [OF assms] by simp
  ultimately show ?thesis
    using localCurrentStep_nonneg [OF assms, of "real i * stepTime bpm"] by simp
qed

lemma localStepIndex_nonneg:
  assumes "0 \<le> s" "0 < patternLength track"
  shows "localStepIndex (Val s) track = Val (s mod int (patternLength track))"
  using assms by (simp add: localStepIndex_def jsRem_nonneg)

text \<open>
  The step the scheduler reads from a track in the pass at time \<open>t\<close>:
  \<open>(floor(t / stepTime) mod 16) mod patternLength\<close>.
\<close>

lemma scheduler_step_at_time:
  assumes "0 < bpm" "0 \<le> t" "0 < patternLength track"
  shows "localStepIndex (localCurrentStep bpm t) track =
           Val ((\<lfloor>t / stepTime bpm\<rfloor> mod 16) mod int (patternLength track))"
proof -
  have "localCurrentStep bpm t = Val (\<lfloor>t / stepTime bpm\<rfloor> mod 16)"
    by (rule localCurrentStep_nonneg [OF assms(1,2)])
  moreover have "0 \<le> \<lfloor>t / stepTime bpm\<rfloor> mod 16" by simp
  ultimately show ?thesis
    using localStepIndex_nonneg [OF _ assms(3), of "\<lfloor>t / stepTime bpm\<rfloor> mod 16"] by simp
qed

text \<open>A pass publishes the cursor it computed and moves \<open>nextNoteTime\<close> on by one step time.\<close>

lemma scheduleStep_advances:
  "snd (snd (scheduleStep tracks bpm mutedTracks soloedTrackId t)) = t + stepTime bpm \<and>
   fst (snd (scheduleStep tracks bpm mutedTracks soloedTrackId t)) = localCurrentStep bpm t"
  by (simp add: scheduleStep_def Let_def)

lemma exportLocalStep_eq:
  assumes "0 < patternLength track"
  shows "exportLocalStep track i = Val (int i mod int (patternLength track))"
  unfolding exportLocalStep_def using assms by (intro jsRem_nonneg) simp_all

lemma mod_16_mod_dvd:
  fixes n :: int
  assumes "L dvd 16"
  shows "(n mod 16) mod L = n mod L"
  using assms by (rule mod_mod_cancel)

text \<open>
  The export loop does what is said of the scheduler: the step it reads has the period of
  the pattern length, and a track of length 16 and a track of length 12 are both at step 0
  exactly at the counters that are multiples of 48.
\<close>

lemma export_period:
  assumes "0 < patternLength track"
  shows "exportLocalStep track (i + patternLength track) = exportLocalStep track i"
  by (simp add: exportLocalStep_eq [OF assms])

lemma export_realign_48:
  assumes "patternLength a = 16" "patternLength b = 12"
  shows "(exportLocalStep a i = Val 0 \<and> exportLocalStep b i = Val 0) \<longleftrightarrow> 48 dvd i"
proof -
  have a: "exportLocalStep a i = Val (int i mod 16)"
    using exportLocalStep_eq [of a i] assms(1) by simp
  have b: "exportLocalStep b i = Val (int i mod 12)"
    using exportLocalStep_eq [of b i] assms(2) by simp
  have "(int i mod 16 = 0 \<and> int i mod 12 = 0) \<longleftrightarrow> 48 dvd int i"
    by presburger
  moreover have "48 dvd int i \<longleftrightarrow> 48 dvd i"
    by (metis int_dvd_int_iff of_nat_numeral)
  ultimately show ?thesis
    by (simp add: a b)
qed

text \<open>
  C2. At 120 bpm the step time is 0.125 and sixteen passes of the scheduler take
  \<open>nextNoteTime\<close> from 0 to 2. On a track of pattern length 12, the pass at time 0.5
  (global step 4) reads local step 4, and the pass at time 2 (global step 16, twelve steps
  later) reads local step 0: the local steps do not repeat with period 12. In the pass at
  time 2 the track of pattern length 16 is at step 0 too, although 16 is no multiple of 48.
  The export loop reads step 4 at both counters and has the two tracks apart at 16.
\<close>

theorem scheduler_wraps_before_pattern_length:
  "stepTime 120 = 0.125 \<and>
   ((\<lambda>t. snd (snd (scheduleStep [INITIAL_TRACK_KICK, examplePolyTrack12] 120 {} None t))) ^^ 16) 0 = 2 \<and>
   localStepIndex (localCurrentStep 120 0.5) examplePolyTrack12 = Val 4 \<and>
   localStepIndex (localCurrentStep 120 2) examplePolyTrack12 = Val 0 \<and>
   localStepIndex (localCurrentStep 120 2) INITIAL_TRACK_KICK = Val 0 \<and>
   exportLocalStep examplePolyTrack12 4 = Val 4 \<and>
   exportLocalStep examplePolyTrack12 16 = Val 4 \<and>
   exportLocalStep INITIAL_TRACK_KICK 16 = Val 0 \<and>
   \<not> (48 :: nat) dvd 16"
proof -
  have b: "(0::real) < 120" by simp
  have p: "0 < patternLength examplePolyTrack12" "patternLength examplePolyTrack12 = 12"
    by (simp_all add: examplePolyTrack12_def)
  have k: "0 < patternLength INITIAL_TRACK_KICK" "patternLength INITIAL_TRACK_KICK = 16"
    by (simp_all add: INITIAL_TRACK_KICK_def)
  have st: "stepTime 120 = 0.125"
    by (simp add: stepTime_def)
  have adv: "(\<lambda>t. snd (snd (scheduleStep [INITIAL_TRACK_KICK, examplePolyTrack12] 120 {} None t)))
      = (\<lambda>t. t + 1 / 8)"
    by (simp add: scheduleStep_advances stepTime_120)
  have it: "((\<lambda>t::real. t + 1 / 8) ^^ n) 0 = real n / 8" for n
    by (induction n) (simp_all add: field_simps)
  have t16: "((\<lambda>t. snd (snd (scheduleStep [INITIAL_TRACK_KICK, examplePolyTrack12] 120 {} None t))) ^^ 16) 0 = 2"
    unfolding adv it by simp
  have s4: "localStepIndex (localCurrentStep 120 0.5) examplePolyTrack12 = Val 4"
    by (simp add: scheduler_step_at_time [OF b _ p(1)] p(2) stepTime_120)
  have s16: "localStepIndex (localCurrentStep 120 2) examplePolyTrack12 = Val 0"
    by (simp add: scheduler_step_at_time [OF b _ p(1)] p(2) stepTime_120)
  have k16: "localStepIndex (localCurrentStep 120 2) INITIAL_TRACK_KICK = Val 0"
    by (simp add: scheduler_step_at_time [OF b _ k(1)] k(2) stepTime_120)
  have e: "exportLocalStep examplePolyTrack12 4 = Val 4"
    "exportLocalStep examplePolyTrack12 16 = Val 4"
    "exportLocalStep INITIAL_TRACK_KICK 16 = Val 0"
    by (simp_all add: exportLocalStep_eq [OF p(1)] exportLocalStep_eq [OF k(1)] p(2) k(2))
  from st t16 s4 s16 k16 e show ?thesis by simp
qed

subsection \<open>The scheduler against the export loop\<close>

text \<open>
  At the time \<open>i * stepTime\<close>, which the export loop gives to its step \<open>i\<close>, the two loops
  read the same step, and then make the same call, as long as the wrap of the global step
  at 16 does not show: within the first 16 steps, or for a pattern length that divides 16.
\<close>

lemma scheduler_export_same_index:
  assumes "0 < bpm" "0 < patternLength track" "i < 16 \<or> patternLength track dvd 16"
  shows "localStepIndex (localCurrentStep bpm (real i * stepTime bpm)) track = exportLocalStep track i"
proof -
  have "(int i mod 16) mod int (patternLength track) = int i mod int (patternLength track)"
  proof (cases "i < 16")
    case True
    then show ?thesis by simp
  next
    case False
    with assms(3) have "int (patternLength track) dvd 16"
      by (metis int_dvd_int_iff of_nat_numeral)
    then show ?thesis by (rule mod_16_mod_dvd)
  qed
  moreover have "localStepIndex (localCurrentStep bpm (real i * stepTime bpm)) track =
      Val ((int i mod 16) mod int (patternLength track))"
    unfolding localCurrentStep_at_multiple [OF assms(1)]
    by (intro localStepIndex_nonneg) (simp_all add: assms(2))
  ultimately show ?thesis
    by (simp add: exportLocalStep_eq [OF assms(2)])
qed

lemma scheduler_export_same_call:
  assumes "0 < bpm" "0 < patternLength track" "i < 16 \<or> patternLength track dvd 16"
  shows "scheduleTrack solo muted (real i * stepTime bpm)
           (localCurrentStep bpm (real i * stepTime bpm)) track =
         exportTrack solo muted (real i * stepTime bpm) i track"
proof -
  from scheduler_export_same_index [OF assms]
  have "localStepIndex (localCurrentStep bpm (real i * stepTime bpm)) track =
      jsRem (int i) (int (patternLength track))"
    by (simp add: exportLocalStep_def)
  then show ?thesis
    by (simp add: scheduleTrack_def exportTrack_def Let_def)
qed

text \<open>
  C3. On a track of pattern length 12 with step 0 active, at 120 bpm, the pass of the
  scheduler at step counter 16 (time \<open>16 * stepTime = 2\<close>) reads step 0 and triggers the
  track, while the export loop at \<open>i = 16\<close> reads step 4 and triggers nothing.
\<close>

theorem scheduler_export_differ_at_16:
  "localStepIndex (localCurrentStep 120 (16 * stepTime 120)) examplePolyTrack12 = Val 0 \<and>
   exportLocalStep examplePolyTrack12 16 = Val 4 \<and>
   fst (scheduleStep [examplePolyTrack12] 120 {} None (16 * stepTime 120)) =
     [\<lparr>tc_track = examplePolyTrack12, tc_pLocks = None, tc_time = 2, tc_note = ''C4'',
       tc_velocity = 1\<rparr>] \<and>
   exportStep [examplePolyTrack12] 120 {} None 16 = []"
proof -
  have b: "(0::real) < 120" by simp
  have L: "patternLength examplePolyTrack12 = 12" and L0: "0 < patternLength examplePolyTrack12"
    by (simp_all add: examplePolyTrack12_def)
  have st: "stepTime 120 = 1 / 8"
    by (rule stepTime_120)
  have s': "localStepIndex (localCurrentStep 120 2) examplePolyTrack12 = Val 0"
    by (simp add: scheduler_step_at_time [OF b _ L0] L st)
  then have s: "localStepIndex (localCurrentStep 120 (16 * stepTime 120)) examplePolyTrack12 = Val 0"
    by (simp add: st)
  have e: "exportLocalStep examplePolyTrack12 16 = Val 4"
    by (simp add: exportLocalStep_eq [OF L0] L)
  have s0: "arrayGet (steps examplePolyTrack12) (Val 0) =
      Some \<lparr>active = True, pLocks = None, note' = None, velocity = 1\<rparr>"
    by (simp add: arrayGet_def examplePolyTrack12_def createEmptySteps_def STEPS_def)
  have s4: "arrayGet (steps examplePolyTrack12) (Val 4) =
      Some \<lparr>active = False, pLocks = None, note' = None, velocity = 1\<rparr>"
    by (simp add: arrayGet_def examplePolyTrack12_def createEmptySteps_def STEPS_def)
  have d: "defaultNote examplePolyTrack12 = ''C4''"
    by (simp add: examplePolyTrack12_def INITIAL_TRACK_POLY_def)
  have c1: "fst (scheduleStep [examplePolyTrack12] 120 {} None (16 * stepTime 120)) =
     [\<lparr>tc_track = examplePolyTrack12, tc_pLocks = None, tc_time = 2, tc_note = ''C4'',
       tc_velocity = 1\<rparr>]"
    by (simp add: scheduleStep_def Let_def st scheduleTrack_def isAudible_def s' s0 d
          List.map_filter_simps)
  from e have e': "jsRem 16 12 = Val 4"
    by (simp add: exportLocalStep_def L)
  have c2: "exportStep [examplePolyTrack12] 120 {} None 16 = []"
    by (simp add: exportStep_def Let_def exportTrack_def isAudible_def L e' s4
          List.map_filter_simps)
  from s e c1 c2 show ?thesis by simp
qed

subsection \<open>The scheduler loop ends\<close>

lemma scheduleLoop_returns:
  assumes "0 < bpm"
  shows "\<exists>calls' cur' next'.
           scheduleLoop tracks bpm muted solo horizon (calls, cur, next) = Some (calls', cur', next') \<and>
           horizon \<le> next'"
proof (induction "nat \<lceil>(horizon - next) / stepTime bpm\<rceil>" arbitrary: calls cur "next" rule: less_induct)
  case less
  let ?s = "stepTime bpm"
  have sp: "0 < ?s" by (rule stepTime_pos [OF assms])
  show ?case
  proof (cases "next < horizon")
    case False
    then show ?thesis
      by (subst scheduleLoop.simps) simp
  next
    case True
    obtain c where c: "scheduleStep tracks bpm muted solo next =
        (c, localCurrentStep bpm next, next + ?s)"
      by (simp add: scheduleStep_def Let_def)
    from True sp have pos: "0 < (horizon - next) / ?s" by simp
    then have "0 < \<lceil>(horizon - next) / ?s\<rceil>" by simp
    moreover have "(horizon - (next + ?s)) / ?s = (horizon - next) / ?s - 1"
      using sp by (simp add: field_simps)
    then have "\<lceil>(horizon - (next + ?s)) / ?s\<rceil> = \<lceil>(horizon - next) / ?s\<rceil> - 1"
      by simp
    ultimately have "nat \<lceil>(horizon - (next + ?s)) / ?s\<rceil> < nat \<lceil>(horizon - next) / ?s\<rceil>"
      by simp
    from less [OF this, of "calls @ c" "Some (localCurrentStep bpm next)"]
    obtain calls' cur' next' where
      "scheduleLoop tracks bpm muted solo horizon (calls @ c, Some (localCurrentStep bpm next), next + ?s)
         = Some (calls', cur', next')" and "horizon \<le> next'"
      by blast
    with True c show ?thesis
      by (subst scheduleLoop.simps) simp
  qed
qed

lemma scheduleNotes_returns:
  assumes "0 < bpm"
  shows "\<exists>calls cur next'.
           scheduleNotes tracks bpm muted solo currentContextTime nextNoteTime = Some (calls, cur, next') \<and>
           currentContextTime + scheduleAheadTime \<le> next'"
  unfolding scheduleNotes_def by (rule scheduleLoop_returns [OF assms])

end
